theory Spec2Isabelle
  imports Complex_Main
begin

section \<open>Python values and exceptions\<close>

text \<open>
  A Python \<^verbatim>\<open>str\<close> is the sequence of its code points, each a natural number:
  the length, the slices and the characters of a \<open>pystr\<close> are those of the
  \<^verbatim>\<open>str\<close>. \<open>lit\<close> gives the \<^verbatim>\<open>str\<close> of an ASCII literal of the source.
\<close>

type_synonym pystr = "nat list"

definition lit :: "string \<Rightarrow> pystr" where
  "lit s = map of_char s"

text \<open>
  The exception classes the program can meet. \<open>JSONDecodeError\<close> is the class
  \<^verbatim>\<open>json.JSONDecodeError\<close>, \<open>RequestException\<close> stands for
  \<^verbatim>\<open>requests.exceptions.RequestException\<close> and its subclasses, and
  \<open>OtherException\<close> for any further subclass of \<^verbatim>\<open>Exception\<close>.
  An exception carries its class and the text \<^verbatim>\<open>str(exc)\<close>.
\<close>

datatype exn_class =
  JSONDecodeError | ValueError | KeyError | IndexError | TypeError | AttributeError
  | RequestException | OtherException

datatype exn = Exn (cls: exn_class) (msg: pystr)

text \<open>
  A decoded JSON value, as \<^verbatim>\<open>json.loads\<close> and \<^verbatim>\<open>response.json()\<close> build it:
  \<^verbatim>\<open>None\<close>, \<^verbatim>\<open>bool\<close>, \<^verbatim>\<open>int\<close>, \<^verbatim>\<open>float\<close>, \<^verbatim>\<open>str\<close>,
  \<^verbatim>\<open>list\<close> and \<^verbatim>\<open>dict\<close> with string keys. A dict is the list of its items in
  insertion order; a lookup takes the first item with the key. A float is opaque: the
  program only tests it for truth and formats it.
\<close>

typedecl pyfloat

datatype json =
  JNull | JBool bool | JInt int | JFloat pyfloat | JStr pystr
  | JArr "json list" | JObj "(pystr \<times> json) list"

text \<open>
  What the program takes from the Python runtime and the standard library, as parameters:
  \<^item> \<open>json_loads\<close>: \<^verbatim>\<open>json.loads\<close> on a \<^verbatim>\<open>str\<close>; \<open>Inl\<close> is the exception it
    raises: a \<^verbatim>\<open>JSONDecodeError\<close> on a text that is not JSON, or another one (a
    \<^verbatim>\<open>ValueError\<close> on an integer of too many digits, a \<^verbatim>\<open>RecursionError\<close> on a
    nesting too deep);
  \<^item> \<open>py_repr\<close>: \<^verbatim>\<open>str(v)\<close> for a float, a list or a dict;
  \<^item> \<open>float_truthy\<close>: \<^verbatim>\<open>bool(f)\<close> for a float;
  \<^item> \<open>format_exc\<close>: \<^verbatim>\<open>traceback.format_exc()\<close> while the exception is handled;
  \<^item> \<open>arity_error\<close>: the text of the \<^verbatim>\<open>TypeError\<close> of calling the named function
    with that many positional arguments.
\<close>

record pylib =
  json_loads :: "pystr \<Rightarrow> exn + json"
  py_repr :: "json \<Rightarrow> pystr"
  float_truthy :: "pyfloat \<Rightarrow> bool"
  format_exc :: "exn \<Rightarrow> pystr"
  arity_error :: "pystr \<Rightarrow> nat \<Rightarrow> pystr"

text \<open>Truth value testing: \<^verbatim>\<open>bool(v)\<close>, as \<^verbatim>\<open>if v\<close>, \<^verbatim>\<open>not v\<close> and \<^verbatim>\<open>or\<close> use it.\<close>

fun truthy :: "pylib \<Rightarrow> json \<Rightarrow> bool" where
  "truthy lib JNull = False"
| "truthy lib (JBool b) = b"
| "truthy lib (JInt i) = (i \<noteq> 0)"
| "truthy lib (JFloat f) = float_truthy lib f"
| "truthy lib (JStr s) = (s \<noteq> [])"
| "truthy lib (JArr xs) = (xs \<noteq> [])"
| "truthy lib (JObj kvs) = (kvs \<noteq> [])"

text \<open>\<^verbatim>\<open>a or b\<close>: the first operand when it is true, the second otherwise.\<close>

definition py_or :: "pylib \<Rightarrow> json \<Rightarrow> json \<Rightarrow> json" where
  "py_or lib a b = (if truthy lib a then a else b)"

text \<open>\<^verbatim>\<open>d.get(k)\<close> and \<^verbatim>\<open>d.get(k, default)\<close> on the items of a dict.\<close>

definition dict_get_default :: "(pystr \<times> json) list \<Rightarrow> pystr \<Rightarrow> json \<Rightarrow> json" where
  "dict_get_default kvs k d = (case map_of kvs k of None \<Rightarrow> d | Some v \<Rightarrow> v)"

definition dict_get :: "(pystr \<times> json) list \<Rightarrow> pystr \<Rightarrow> json" where
  "dict_get kvs k = dict_get_default kvs k JNull"

text \<open>\<^verbatim>\<open>str(n)\<close> for an integer.\<close>

function str_nat :: "nat \<Rightarrow> pystr" where
  "str_nat n =
     (if n < 10 then [48 + n]
      else str_nat (n div 10) @ [48 + n mod 10])"
  by pat_completeness auto
termination
  by (relation "measure (\<lambda>n. n)") auto

declare str_nat.simps [simp del]

definition str_int :: "int \<Rightarrow> pystr" where
  "str_int i = (if i < 0 then lit ''-'' @ str_nat (nat (- i)) else str_nat (nat i))"

text \<open>\<^verbatim>\<open>str(v)\<close>, which is also what an f-string field \<^verbatim>\<open>{v}\<close> inserts.\<close>

definition py_str :: "pylib \<Rightarrow> json \<Rightarrow> pystr" where
  "py_str lib v =
     (case v of
        JNull \<Rightarrow> lit ''None''
      | JBool b \<Rightarrow> (if b then lit ''True'' else lit ''False'')
      | JInt i \<Rightarrow> str_int i
      | JStr s \<Rightarrow> s
      | _ \<Rightarrow> py_repr lib v)"

text \<open>
  \<^verbatim>\<open>s.strip()\<close>: the code points \<^verbatim>\<open>str.isspace\<close> accepts (U+0009 to U+000D,
  U+001C to U+0020, U+0085, U+00A0, U+1680, U+2000 to U+200A, U+2028, U+2029, U+202F,
  U+205F, U+3000) are removed from both ends.
\<close>

definition py_isspace :: "nat \<Rightarrow> bool" where
  "py_isspace c =
     (c \<in> {9, 10, 11, 12, 13, 28, 29, 30, 31, 32, 133, 160, 5760, 8192, 8193, 8194, 8195,
           8196, 8197, 8198, 8199, 8200, 8201, 8202, 8232, 8233, 8239, 8287, 12288})"

definition strip :: "pystr \<Rightarrow> pystr" where
  "strip s = rev (dropWhile py_isspace (rev (dropWhile py_isspace s)))"

text \<open>\<^verbatim>\<open>xs[:n]\<close>: a negative bound counts from the end.\<close>

definition slice_to :: "'a list \<Rightarrow> int \<Rightarrow> 'a list" where
  "slice_to xs n = (if 0 \<le> n then take (nat n) xs else take (length xs - nat (- n)) xs)"

section \<open>Songs\<close>

text \<open>
  \<^verbatim>\<open>
  @dataclass
  class Song:
      title: str
      artist: str
      def __str__(self) -> str:
          return f"{self.title} \<emdash> {self.artist}"
  \<close>
  The annotations are not enforced: a field holds whatever value the constructor was
  given. The separator of \<^verbatim>\<open>__str__\<close> is an em dash (U+2014, the code point
  8212) between two spaces.
\<close>

record Song =
  title :: json
  artist :: json

definition em_dash :: pystr where
  "em_dash = [8212]"

definition song_str :: "pylib \<Rightarrow> Song \<Rightarrow> pystr" where
  "song_str lib s = py_str lib (title s) @ lit '' '' @ em_dash @ lit '' '' @ py_str lib (artist s)"

section \<open>Song-List Parser\<close>

text \<open>
  \<^verbatim>\<open>
  def parse_openai_song_list(raw_content: str, limit: int) -> List[Song]:
      try:
          parsed = json.loads(raw_content)
          if not isinstance(parsed, list):
              raise ValueError("OpenAI response JSON is not a list.")
          songs: List[Song] = []
          for i, item in enumerate(parsed[:limit]):
              if not isinstance(item, dict):
                  logger.warning(...)
                  continue
              title = item.get("title") or item.get("name") or item.get("track")
              artist = item.get("artist") or item.get("artists")
              if not title or not artist:
                  logger.warning(...)
                  continue
              songs.append(Song(title=str(title).strip(), artist=str(artist).strip()))
          return songs
      except json.JSONDecodeError as exc:
          raise ValueError(f"Failed to decode JSON from OpenAI response: {exc}")
  \<close>
  \<open>item_title\<close> and \<open>item_artist\<close> are the two \<^verbatim>\<open>or\<close> chains on the items of a
  dict; \<open>parse_item\<close> is one round of the loop, \<open>None\<close> when the item is skipped.
  The \<^verbatim>\<open>except\<close> clause takes a \<^verbatim>\<open>JSONDecodeError\<close> only: any other exception
  of \<^verbatim>\<open>json.loads\<close>, and the \<^verbatim>\<open>ValueError\<close> of the body, leave the function as
  they are. Logging is left out.
\<close>

definition item_title :: "pylib \<Rightarrow> (pystr \<times> json) list \<Rightarrow> json" where
  "item_title lib kvs =
     py_or lib (py_or lib (dict_get kvs (lit ''title'')) (dict_get kvs (lit ''name''))) (dict_get kvs (lit ''track''))"

definition item_artist :: "pylib \<Rightarrow> (pystr \<times> json) list \<Rightarrow> json" where
  "item_artist lib kvs = py_or lib (dict_get kvs (lit ''artist'')) (dict_get kvs (lit ''artists''))"

definition parse_item :: "pylib \<Rightarrow> json \<Rightarrow> Song option" where
  "parse_item lib item =
     (case item of
        JObj kvs \<Rightarrow>
          (let title = item_title lib kvs; artist = item_artist lib kvs
           in if \<not> truthy lib title \<or> \<not> truthy lib artist then None
              else Some \<lparr>title = JStr (strip (py_str lib title)),
                         artist = JStr (strip (py_str lib artist))\<rparr>)
      | _ \<Rightarrow> None)"

fun parse_items :: "pylib \<Rightarrow> json list \<Rightarrow> Song list \<Rightarrow> Song list" where
  "parse_items lib [] songs = songs"
| "parse_items lib (item # items) songs =
     (case parse_item lib item of
        None \<Rightarrow> parse_items lib items songs
      | Some song \<Rightarrow> parse_items lib items (songs @ [song]))"

definition parse_openai_song_list :: "pylib \<Rightarrow> pystr \<Rightarrow> int \<Rightarrow> exn + Song list" where
  "parse_openai_song_list lib raw_content limit =
     (case json_loads lib raw_content of
        Inl exc \<Rightarrow>
          (if cls exc = JSONDecodeError
           then Inl (Exn ValueError
                       (lit ''Failed to decode JSON from OpenAI response: '' @ msg exc))
           else Inl exc)
      | Inr parsed \<Rightarrow>
          (case parsed of
             JArr items \<Rightarrow> Inr (parse_items lib (slice_to items limit) [])
           | _ \<Rightarrow> Inl (Exn ValueError (lit ''OpenAI response JSON is not a list.''))))"

section \<open>Track Resolver: the first track of a search response\<close>

text \<open>
  \<^verbatim>\<open>
  def extract_first_track_uri(track_search_response: Dict[str, Any]) -> Optional[str]:
      if not track_search_response:
          return None
      tracks = track_search_response.get("tracks")
      if not tracks:
          return None
      items = tracks.get("items", [])
      if not items:
          return None
      first = items[0]
      return first.get("uri")
  \<close>
  \<^verbatim>\<open>v.get\<close> raises \<^verbatim>\<open>AttributeError\<close> when \<open>v\<close> is not a dict, and
  \<^verbatim>\<open>v[0]\<close> follows the type of \<open>v\<close>; the returned \<^verbatim>\<open>None\<close> is \<open>JNull\<close>.
\<close>

definition get_attr :: "json \<Rightarrow> pystr \<Rightarrow> json \<Rightarrow> exn_class + json" where
  "get_attr v k d = (case v of JObj kvs \<Rightarrow> Inr (dict_get_default kvs k d) | _ \<Rightarrow> Inl AttributeError)"

text \<open>
  \<^verbatim>\<open>v[0]\<close>: the first element of a list, the first character of a string, a
  \<^verbatim>\<open>KeyError\<close> on a dict (its keys are strings), a \<^verbatim>\<open>TypeError\<close> elsewhere.
\<close>

definition subscript_0 :: "json \<Rightarrow> exn_class + json" where
  "subscript_0 v =
     (case v of
        JArr xs \<Rightarrow> (case xs of [] \<Rightarrow> Inl IndexError | x # _ \<Rightarrow> Inr x)
      | JStr s \<Rightarrow> (case s of [] \<Rightarrow> Inl IndexError | c # _ \<Rightarrow> Inr (JStr [c]))
      | JObj kvs \<Rightarrow> Inl KeyError
      | _ \<Rightarrow> Inl TypeError)"

definition extract_first_track_uri :: "pylib \<Rightarrow> json \<Rightarrow> exn_class + json" where
  "extract_first_track_uri lib track_search_response =
     (if \<not> truthy lib track_search_response then Inr JNull
      else (case get_attr track_search_response (lit ''tracks'') JNull of
              Inl e \<Rightarrow> Inl e
            | Inr tracks \<Rightarrow>
                (if \<not> truthy lib tracks then Inr JNull
                 else (case get_attr tracks (lit ''items'') (JArr []) of
                         Inl e \<Rightarrow> Inl e
                       | Inr items \<Rightarrow>
                           (if \<not> truthy lib items then Inr JNull
                            else (case subscript_0 items of
                                    Inl e \<Rightarrow> Inl e
                                  | Inr first \<Rightarrow> get_attr first (lit ''uri'') JNull))))))"

section \<open>Batch Adder: chunking\<close>

text \<open>
  \<^verbatim>\<open>
  def chunked(iterable, size):
      for i in range(0, len(iterable), size):
          yield iterable[i : i + size]
  \<close>
  \<open>chunked_from\<close> is the loop from index \<open>i\<close> on, for a positive step;
  \<open>chunked\<close> adds what \<^verbatim>\<open>range\<close> does with the other steps: a zero step
  raises \<^verbatim>\<open>ValueError\<close>, a negative step gives the empty range.
\<close>

function chunked_from :: "nat \<Rightarrow> 'a list \<Rightarrow> nat \<Rightarrow> 'a list list" where
  "chunked_from i iterable sz =
     (if 0 < sz \<and> i < length iterable
      then take sz (drop i iterable) # chunked_from (i + sz) iterable sz
      else [])"
  by pat_completeness auto
termination
  by (relation "measure (\<lambda>(i, iterable, sz). length iterable - i)") auto

declare chunked_from.simps [simp del]

definition chunked :: "'a list \<Rightarrow> int \<Rightarrow> exn + 'a list list" where
  "chunked iterable sz =
     (if sz = 0 then Inl (Exn ValueError (lit ''range() arg 3 must not be zero''))
      else if sz < 0 then Inr []
      else Inr (chunked_from 0 iterable (nat sz)))"

text \<open>\<^verbatim>\<open>SPOTIFY_ADD_BATCH_SIZE = 100\<close>\<close>

definition SPOTIFY_ADD_BATCH_SIZE :: int where
  "SPOTIFY_ADD_BATCH_SIZE = 100"

section \<open>Tool calls\<close>

text \<open>
  A tool is a Python callable applied to positional arguments: it returns a value or
  raises, and may change the world outside the program (the type \<open>'w\<close>: the remote
  services). An entry of the error list is a dict from strings to strings.
  \<^verbatim>\<open>
  def safe_call(tool_name: str, func, *args, **kwargs) -> Dict[str, Any]:
      try:
          result = func(*args, **kwargs)
          return {"result": result}
      except Exception as exc:
          tb = traceback.format_exc()
          logger.exception("Tool %s raised an exception", tool_name)
          return {"error": {"tool": tool_name, "exception": str(exc), "traceback": tb}}
  \<close>
  The returned dict has exactly one of the keys \<^verbatim>\<open>result\<close> and \<^verbatim>\<open>error\<close>:
  the two constructors of \<open>call_result\<close>.
\<close>

type_synonym entry = "(pystr \<times> pystr) list"

type_synonym 'w tool = "json list \<Rightarrow> 'w \<Rightarrow> (exn + json) \<times> 'w"

datatype call_result = Result json | Error entry

definition safe_call :: "pylib \<Rightarrow> pystr \<Rightarrow> 'w tool \<Rightarrow> json list \<Rightarrow> 'w \<Rightarrow> call_result \<times> 'w" where
  "safe_call lib tool_name func args w =
     (case func args w of
        (Inr result, w') \<Rightarrow> (Result result, w')
      | (Inl exc, w') \<Rightarrow>
          (Error [(lit ''tool'', tool_name), (lit ''exception'', msg exc),
                  (lit ''traceback'', format_exc lib exc)], w'))"

text \<open>\<^verbatim>\<open>err['tool']\<close>, \<^verbatim>\<open>err['exception']\<close> and \<^verbatim>\<open>err.get("traceback", "")\<close>
  on an entry built by \<open>safe_call\<close>, which has the three keys.\<close>

definition entry_get :: "entry \<Rightarrow> pystr \<Rightarrow> pystr" where
  "entry_get err k = (case map_of err k of None \<Rightarrow> [] | Some v \<Rightarrow> v)"

section \<open>The tools of the repository\<close>

text \<open>
  Each tool under \<^verbatim>\<open>tools/\<close> sends one HTTP request with \<^verbatim>\<open>requests\<close>:
  \<^verbatim>\<open>
      try:
          response = requests.post(url, headers=headers, json=data)
          response.raise_for_status()  # Raises an error for HTTP errors
          return response.json()
      except requests.exceptions.RequestException as e:
          print(f"Error ...: {e}")
          return {"error": "An error occurred while ..."}
  \<close>
  The three calls of the \<^verbatim>\<open>try\<close> block are one step of the HTTP layer \<open>'w http\<close>:
  it gives the decoded body, or the exception one of them raised. A transport failure and
  an HTTP error status are of class \<open>RequestException\<close>. The printed line is left out.
\<close>

datatype http_method = GET | POST

record request =
  verb :: http_method
  url :: pystr
  headers :: "(pystr \<times> pystr) list"
  params :: "(pystr \<times> json) list"
  payload :: "json option"

datatype response = Body json | Failed exn

type_synonym 'w http = "request \<Rightarrow> 'w \<Rightarrow> response \<times> 'w"

definition send :: "'w http \<Rightarrow> request \<Rightarrow> pystr \<Rightarrow> 'w \<Rightarrow> (exn + json) \<times> 'w" where
  "send http req error_text w =
     (case http req w of
        (Body j, w') \<Rightarrow> (Inr j, w')
      | (Failed e, w') \<Rightarrow>
          (if cls e = RequestException then (Inr (JObj [(lit ''error'', JStr error_text)]), w')
           else (Inl e, w')))"

text \<open>
  \<^verbatim>\<open>def create_chat_completion(messages)\<close>, with the module's
  \<^verbatim>\<open>openai_api_key = os.getenv("OPENAI_API_KEY")\<close> as a parameter. A call with another
  number of positional arguments raises \<^verbatim>\<open>TypeError\<close> before the body runs; so
  for the other tools.
\<close>

definition chat_request :: "pylib \<Rightarrow> json \<Rightarrow> json \<Rightarrow> request" where
  "chat_request lib openai_api_key messages =
     \<lparr>verb = POST, url = lit ''https://api.openai.com/v1/chat/completions'',
      headers = [(lit ''Content-Type'', lit ''application/json''),
                 (lit ''Authorization'', lit ''Bearer '' @ py_str lib openai_api_key)],
      params = [],
      payload = Some (JObj [(lit ''model'', JStr (lit ''gpt-4'')), (lit ''messages'', messages)])\<rparr>"

definition create_chat_completion :: "pylib \<Rightarrow> 'w http \<Rightarrow> json \<Rightarrow> 'w tool" where
  "create_chat_completion lib http openai_api_key args w =
     (case args of
        [messages] \<Rightarrow>
          send http (chat_request lib openai_api_key messages)
            (lit ''An error occurred while creating chat completion.'') w
      | _ \<Rightarrow>
          (Inl (Exn TypeError (arity_error lib (lit ''create_chat_completion'') (length args))), w))"

text \<open>\<^verbatim>\<open>def get_current_user_profile(spotify_token)\<close>\<close>

definition get_current_user_profile :: "pylib \<Rightarrow> 'w http \<Rightarrow> 'w tool" where
  "get_current_user_profile lib http args w =
     (case args of
        [spotify_token] \<Rightarrow>
          send http
            \<lparr>verb = GET, url = lit ''https://api.spotify.com/v1/me'',
             headers = [(lit ''Authorization'', lit ''Bearer '' @ py_str lib spotify_token)],
             params = [], payload = None\<rparr>
            (lit ''An error occurred while getting the user profile.'') w
      | _ \<Rightarrow>
          (Inl (Exn TypeError (arity_error lib (lit ''get_current_user_profile'') (length args))), w))"

text \<open>\<^verbatim>\<open>def create_playlist(user_id, playlist_name, spotify_token)\<close>; the
  \<^verbatim>\<open>Authorization\<close> header is added \<^verbatim>\<open>if token\<close>.\<close>

definition create_playlist :: "pylib \<Rightarrow> 'w http \<Rightarrow> 'w tool" where
  "create_playlist lib http args w =
     (case args of
        [user_id, playlist_name, spotify_token] \<Rightarrow>
          send http
            \<lparr>verb = POST,
             url = lit ''https://api.spotify.com/v1/users/'' @ py_str lib user_id @ lit ''/playlists'',
             headers = (lit ''Content-Type'', lit ''application/json'') #
               (if truthy lib spotify_token
                then [(lit ''Authorization'', lit ''Bearer '' @ py_str lib spotify_token)] else []),
             params = [],
             payload = Some (JObj [(lit ''name'', playlist_name), (lit ''public'', JBool False),
                                   (lit ''description'', JStr (lit ''test description''))])\<rparr>
            (lit ''An error occurred while creating the playlist.'') w
      | _ \<Rightarrow> (Inl (Exn TypeError (arity_error lib (lit ''create_playlist'') (length args))), w))"

text \<open>\<^verbatim>\<open>def search_for_item(q, spotify_token, item_type="track")\<close>\<close>

definition search_request :: "pylib \<Rightarrow> json \<Rightarrow> json \<Rightarrow> json \<Rightarrow> request" where
  "search_request lib q spotify_token item_type =
     \<lparr>verb = GET, url = lit ''https://api.spotify.com/v1/search'',
      headers = [(lit ''Authorization'', lit ''Bearer '' @ py_str lib spotify_token)],
      params = [(lit ''q'', q), (lit ''type'', item_type)], payload = None\<rparr>"

definition search_for_item :: "pylib \<Rightarrow> 'w http \<Rightarrow> 'w tool" where
  "search_for_item lib http args w =
     (case args of
        [q, spotify_token] \<Rightarrow>
          send http (search_request lib q spotify_token (JStr (lit ''track'')))
            (lit ''An error occurred while searching for the item.'') w
      | [q, spotify_token, item_type] \<Rightarrow>
          send http (search_request lib q spotify_token item_type)
            (lit ''An error occurred while searching for the item.'') w
      | _ \<Rightarrow> (Inl (Exn TypeError (arity_error lib (lit ''search_for_item'') (length args))), w))"

text \<open>\<^verbatim>\<open>def add_items_to_playlist(playlist_id, uris, spotify_token)\<close>\<close>

definition add_items_to_playlist :: "pylib \<Rightarrow> 'w http \<Rightarrow> 'w tool" where
  "add_items_to_playlist lib http args w =
     (case args of
        [playlist_id, uris, spotify_token] \<Rightarrow>
          send http
            \<lparr>verb = POST,
             url = lit ''https://api.spotify.com/v1/playlists/'' @ py_str lib playlist_id @ lit ''/tracks'',
             headers = [(lit ''Authorization'', lit ''Bearer '' @ py_str lib spotify_token),
                        (lit ''Content-Type'', lit ''application/json'')],
             params = [], payload = Some (JObj [(lit ''uris'', uris)])\<rparr>
            (lit ''An error occurred while adding items to the playlist.'') w
      | _ \<Rightarrow> (Inl (Exn TypeError (arity_error lib (lit ''add_items_to_playlist'') (length args))), w))"

section \<open>Orchestrator\<close>

text \<open>
  The run that the button \<^verbatim>\<open>Generate Playlist\<close> starts (\<^verbatim>\<open>app.py\<close>, lines 166 to
  365). \<open>session\<close> is what \<^verbatim>\<open>st.session_state\<close> retains between runs:
  \<^verbatim>\<open>errors\<close> and \<^verbatim>\<open>playlist_info\<close> (the dict \<^verbatim>\<open>{}\<close> until a run writes it).
  The state of a run adds the world of the remote services, the widgets the run has
  drawn (\<open>screen\<close>), the local \<^verbatim>\<open>song_objects\<close> (\<open>None\<close> while unassigned) and, as
  a record of what the run did, each \<open>safe_call\<close> with its arguments and result
  (\<open>calls\<close>).
\<close>

record session =
  errors :: "entry list"
  playlist_info :: json

datatype widget = st_info | st_error | st_text | st_warning | st_success

record 'w state = session +
  world :: 'w
  calls :: "(pystr \<times> json list \<times> call_result) list"
  screen :: "(widget \<times> pystr) list"
  song_objects :: "Song list option"

text \<open>
  How a run ends: the script reaches its end (\<open>Finished\<close>), \<^verbatim>\<open>st.stop()\<close> halts it
  (\<open>Stopped\<close>), or an exception escapes it (\<open>Uncaught\<close>, with the class).
\<close>

datatype ending = Finished | Stopped | Uncaught exn_class

definition emit :: "widget \<Rightarrow> pystr \<Rightarrow> 'w state \<Rightarrow> 'w state" where
  "emit wd text s = s\<lparr>screen := screen s @ [(wd, text)]\<rparr>"

definition append_error :: "entry \<Rightarrow> 'w state \<Rightarrow> 'w state" where
  "append_error err s = s\<lparr>errors := errors s @ [err]\<rparr>"

definition call_tool ::
  "pylib \<Rightarrow> pystr \<Rightarrow> 'w tool \<Rightarrow> json list \<Rightarrow> 'w state \<Rightarrow> call_result \<times> 'w state" where
  "call_tool lib tool_name func args s =
     (case safe_call lib tool_name func args (world s) of
        (r, w') \<Rightarrow> (r, s\<lparr>world := w', calls := calls s @ [(tool_name, args, r)]\<rparr>))"

text \<open>The five tools the orchestrator imports, as it finds them at run time.\<close>

record 'w tools =
  chat_completion_tool :: "'w tool"
  user_profile_tool :: "'w tool"
  create_playlist_tool :: "'w tool"
  search_tool :: "'w tool"
  add_items_tool :: "'w tool"

definition repo_tools :: "pylib \<Rightarrow> 'w http \<Rightarrow> json \<Rightarrow> 'w tools" where
  "repo_tools lib http openai_api_key =
     \<lparr>chat_completion_tool = create_chat_completion lib http openai_api_key,
      user_profile_tool = get_current_user_profile lib http,
      create_playlist_tool = create_playlist lib http,
      search_tool = search_for_item lib http,
      add_items_tool = add_items_to_playlist lib http\<rparr>"

subsection \<open>Stage 1: generate\<close>

definition apostrophe :: nat where
  "apostrophe = 39"

definition dquote :: nat where
  "dquote = 34"

definition newline :: nat where
  "newline = 10"

definition system_prompt :: pystr where
  "system_prompt =
     lit ''You are an AI music assistant that transforms a user'' @ [apostrophe] @
     lit ''s idea, mood, or theme '' @
     lit ''into a curated Spotify playlist. You must respond with a JSON object that '' @
     lit ''contains a short and catchy playlist title and a list of real songs likely to exist on Spotify.''"

definition user_prompt :: "pystr \<Rightarrow> int \<Rightarrow> pystr" where
  "user_prompt playlist_description limit =
     lit ''Generate a playlist based on the following description: '' @ [apostrophe] @
       playlist_description @ [apostrophe] @ lit ''.'' @ [newline, newline] @
     lit ''Return a JSON object with this format:'' @ [newline, newline] @
     lit ''{'' @ [newline] @
     lit ''  '' @ [dquote] @ lit ''playlist_title'' @ [dquote] @ lit '': '' @ [dquote] @ lit ''string'' @
       [dquote] @ lit '','' @ [newline] @
     lit ''  '' @ [dquote] @ lit ''songs'' @ [dquote] @ lit '': ['' @ [newline] @
     lit ''    { '' @ [dquote] @ lit ''title'' @ [dquote] @ lit '': '' @ [dquote] @ lit ''string'' @ [dquote] @
       lit '', '' @ [dquote] @ lit ''artist'' @ [dquote] @ lit '': '' @ [dquote] @ lit ''string'' @ [dquote] @
       lit '' }, ... up to '' @ str_int limit @ lit '' songs'' @ [newline] @
     lit ''  ]'' @ [newline] @
     lit ''}'' @ [newline, newline] @
     lit ''Make sure the playlist_title is engaging, under 6 words, and fits the theme. ''"

definition messages :: "pystr \<Rightarrow> int \<Rightarrow> json" where
  "messages playlist_description limit =
     JArr [JObj [(lit ''role'', JStr (lit ''system'')), (lit ''content'', JStr system_prompt)],
           JObj [(lit ''role'', JStr (lit ''user'')),
                 (lit ''content'', JStr (user_prompt playlist_description limit))]]"

text \<open>
  \<^verbatim>\<open>v["k"]\<close> with a string key: the value of a dict, \<^verbatim>\<open>KeyError\<close> when the key
  is missing, \<^verbatim>\<open>TypeError\<close> when \<open>v\<close> is not a dict.
\<close>

definition subscript_key :: "json \<Rightarrow> pystr \<Rightarrow> exn_class + json" where
  "subscript_key v k =
     (case v of
        JObj kvs \<Rightarrow> (case map_of kvs k of None \<Rightarrow> Inl KeyError | Some x \<Rightarrow> Inr x)
      | _ \<Rightarrow> Inl TypeError)"

text \<open>\<^verbatim>\<open>openai_call["result"]["choices"][0]["message"]["content"]\<close>\<close>

definition completion_content :: "json \<Rightarrow> exn_class + json" where
  "completion_content result =
     (case subscript_key result (lit ''choices'') of
        Inl e \<Rightarrow> Inl e
      | Inr choices \<Rightarrow>
          (case subscript_0 choices of
             Inl e \<Rightarrow> Inl e
           | Inr choice \<Rightarrow>
               (case subscript_key choice (lit ''message'') of
                  Inl e \<Rightarrow> Inl e
                | Inr message \<Rightarrow> subscript_key message (lit ''content''))))"

text \<open>
  \<^verbatim>\<open>for s in v\<close>: the elements of a list, the keys of a dict, the characters of a
  string; \<^verbatim>\<open>"k" in v\<close>: an element of a list, a key of a dict, a substring of a
  string. Both raise \<^verbatim>\<open>TypeError\<close> on the other values.
\<close>

definition iterate :: "json \<Rightarrow> exn_class + json list" where
  "iterate v =
     (case v of
        JArr xs \<Rightarrow> Inr xs
      | JObj kvs \<Rightarrow> Inr (map (\<lambda>kv. JStr (fst kv)) kvs)
      | JStr s \<Rightarrow> Inr (map (\<lambda>c. JStr [c]) s)
      | _ \<Rightarrow> Inl TypeError)"

fun is_substring :: "pystr \<Rightarrow> pystr \<Rightarrow> bool" where
  "is_substring sub [] = (sub = [])"
| "is_substring sub (c # cs) = (take (length sub) (c # cs) = sub \<or> is_substring sub cs)"

definition contains :: "pystr \<Rightarrow> json \<Rightarrow> exn_class + bool" where
  "contains k v =
     (case v of
        JObj kvs \<Rightarrow> Inr (map_of kvs k \<noteq> None)
      | JStr s \<Rightarrow> Inr (is_substring k s)
      | JArr xs \<Rightarrow> Inr (JStr k \<in> set xs)
      | _ \<Rightarrow> Inl TypeError)"

text \<open>
  \<^verbatim>\<open>
  song_objects = [
      Song(title=s["title"], artist=s["artist"])
      for s in songs_data
      if "title" in s and "artist" in s
  ]
  \<close>
  \<open>song_of_entry\<close> is one element: \<open>None\<close> when the condition is false.
\<close>

definition song_of_entry :: "json \<Rightarrow> exn_class + Song option" where
  "song_of_entry s =
     (case contains (lit ''title'') s of
        Inl e \<Rightarrow> Inl e
      | Inr has_title \<Rightarrow>
          (if \<not> has_title then Inr None
           else (case contains (lit ''artist'') s of
                   Inl e \<Rightarrow> Inl e
                 | Inr has_artist \<Rightarrow>
                     (if \<not> has_artist then Inr None
                      else (case subscript_key s (lit ''title'') of
                              Inl e \<Rightarrow> Inl e
                            | Inr t \<Rightarrow>
                                (case subscript_key s (lit ''artist'') of
                                   Inl e \<Rightarrow> Inl e
                                 | Inr a \<Rightarrow> Inr (Some \<lparr>title = t, artist = a\<rparr>)))))))"

fun songs_of_entries :: "json list \<Rightarrow> Song list \<Rightarrow> exn_class + Song list" where
  "songs_of_entries [] acc = Inr acc"
| "songs_of_entries (s # rest) acc =
     (case song_of_entry s of
        Inl e \<Rightarrow> Inl e
      | Inr None \<Rightarrow> songs_of_entries rest acc
      | Inr (Some song) \<Rightarrow> songs_of_entries rest (acc @ [song]))"

text \<open>\<^verbatim>\<open>f"AI: {playlist_description[:40]}"\<close>\<close>

definition default_title :: "pystr \<Rightarrow> pystr" where
  "default_title playlist_description = lit ''AI: '' @ take 40 playlist_description"

text \<open>
  The \<^verbatim>\<open>try\<close> block of lines 212 to 224: the title and the songs, the text of a
  \<^verbatim>\<open>json.JSONDecodeError\<close> (the one class the \<^verbatim>\<open>except\<close> clause catches), or
  the class of an exception that escapes, among them what \<^verbatim>\<open>json.loads\<close> raises
  other than a \<^verbatim>\<open>JSONDecodeError\<close>. \<^verbatim>\<open>json.loads\<close> raises \<^verbatim>\<open>TypeError\<close>
  on a value that is not a string.
\<close>

datatype generated = Generated json "Song list" | DecodeFailed pystr | Escaped exn_class

definition read_completion :: "pylib \<Rightarrow> pystr \<Rightarrow> json \<Rightarrow> generated" where
  "read_completion lib playlist_description result =
     (case completion_content result of
        Inl e \<Rightarrow> Escaped e
      | Inr content \<Rightarrow>
          (case content of
             JStr text \<Rightarrow>
               (case json_loads lib text of
                  Inl exc \<Rightarrow>
                    (if cls exc = JSONDecodeError then DecodeFailed (msg exc)
                     else Escaped (cls exc))
                | Inr parsed \<Rightarrow>
                    (case get_attr parsed (lit ''playlist_title'')
                            (JStr (default_title playlist_description)) of
                       Inl e \<Rightarrow> Escaped e
                     | Inr playlist_title \<Rightarrow>
                         (case get_attr parsed (lit ''songs'') (JArr []) of
                            Inl e \<Rightarrow> Escaped e
                          | Inr songs_data \<Rightarrow>
                              (case iterate songs_data of
                                 Inl e \<Rightarrow> Escaped e
                               | Inr entries \<Rightarrow>
                                   (case songs_of_entries entries [] of
                                      Inl e \<Rightarrow> Escaped e
                                    | Inr songs \<Rightarrow> Generated playlist_title songs)))))
           | _ \<Rightarrow> Escaped TypeError))"

subsection \<open>Stages 4 to 6: resolve tracks, add tracks, finalize\<close>

text \<open>
  The loop of lines 286 to 310. A search that raises, or that finds no track, appends an
  entry and the loop goes on; an exception of \<open>extract_first_track_uri\<close> escapes.
\<close>

definition search_query :: "pylib \<Rightarrow> Song \<Rightarrow> pystr" where
  "search_query lib s = lit ''track:'' @ py_str lib (title s) @ lit '' artist:'' @ py_str lib (artist s)"

fun resolve_tracks ::
  "pylib \<Rightarrow> 'w tools \<Rightarrow> Song list \<Rightarrow> json list \<Rightarrow> 'w state \<Rightarrow> (exn_class + json list) \<times> 'w state"
where
  "resolve_tracks lib T [] track_uris st = (Inr track_uris, st)"
| "resolve_tracks lib T (s # rest) track_uris st =
     (case call_tool lib (lit ''Spotify (search_for_item)'') (search_tool T)
             [JStr (search_query lib s)] st of
        (Error err, st') \<Rightarrow>
          resolve_tracks lib T rest track_uris
            (append_error ((lit ''song'', song_str lib s) # err)
              (emit st_error
                 (lit ''Search error for '' @ [apostrophe] @ song_str lib s @ [apostrophe] @ lit '': '' @
                  entry_get err (lit ''tool'') @ lit '': '' @ entry_get err (lit ''exception'')) st'))
      | (Result track_data, st') \<Rightarrow>
          (case extract_first_track_uri lib track_data of
             Inl e \<Rightarrow> (Inl e, st')
           | Inr uri \<Rightarrow>
               (if truthy lib uri then resolve_tracks lib T rest (track_uris @ [uri]) st'
                else resolve_tracks lib T rest track_uris
                       (append_error
                          [(lit ''song'', song_str lib s), (lit ''tool'', lit ''search_for_item''),
                           (lit ''exception'', lit ''no track uri found'')]
                          (emit st_warning
                             (lit ''No track found on Spotify for: '' @ song_str lib s) st')))))"

text \<open>The loop of lines 322 to 337: one call for each chunk, whatever the calls before did.\<close>

fun add_chunks :: "pylib \<Rightarrow> 'w tools \<Rightarrow> json \<Rightarrow> json list list \<Rightarrow> 'w state \<Rightarrow> 'w state" where
  "add_chunks lib T playlist_id [] st = st"
| "add_chunks lib T playlist_id (chunk # chunks) st =
     (case call_tool lib (lit ''Spotify (add_items_to_playlist)'') (add_items_tool T)
             [playlist_id, JArr chunk] st of
        (Error err, st') \<Rightarrow>
          add_chunks lib T playlist_id chunks
            (append_error err
              (emit st_text (entry_get err (lit ''traceback''))
                (emit st_error
                   (lit ''Failed to add tracks to playlist: '' @ entry_get err (lit ''tool'') @ lit '': '' @
                    entry_get err (lit ''exception'')) st')))
      | (Result r, st') \<Rightarrow> add_chunks lib T playlist_id chunks st')"

text \<open>
  Lines 319 to 352. The \<^verbatim>\<open>except Exception\<close> clause around the loop takes what the
  chunking raises.
\<close>

definition add_tracks :: "pylib \<Rightarrow> 'w tools \<Rightarrow> json \<Rightarrow> json list \<Rightarrow> 'w state \<Rightarrow> 'w state" where
  "add_tracks lib T playlist_id track_uris st =
     (if track_uris \<noteq> [] then
        (case chunked track_uris SPOTIFY_ADD_BATCH_SIZE of
           Inr chunks \<Rightarrow>
             emit st_success (lit ''Tracks added to playlist (where possible).'')
               (add_chunks lib T playlist_id chunks st)
         | Inl exc \<Rightarrow>
             append_error
               [(lit ''tool'', lit ''add_items_to_playlist_unexpected''), (lit ''exception'', msg exc),
                (lit ''traceback'', format_exc lib exc)]
               (emit st_text (format_exc lib exc)
                 (emit st_error (lit ''Unexpected error while adding tracks: '' @ msg exc) st)))
      else emit st_warning (lit ''No track URIs to add to playlist.'') st)"

text \<open>Lines 357 to 365: the summary replaces \<^verbatim>\<open>st.session_state.playlist_info\<close>.\<close>

definition summary :: "pystr \<Rightarrow> pystr \<Rightarrow> Song list \<Rightarrow> json list \<Rightarrow> json \<Rightarrow> json" where
  "summary playlist_name playlist_description songs track_uris playlist_id =
     JObj [(lit ''playlist_name'', JStr playlist_name),
           (lit ''playlist_description'', JStr playlist_description),
           (lit ''songs'', JArr (map (\<lambda>s. JObj [(lit ''title'', title s), (lit ''artist'', artist s)]) songs)),
           (lit ''resolved_track_count'', JInt (int (length track_uris))),
           (lit ''playlist_id'', playlist_id)]"

definition resolve_and_add ::
  "pylib \<Rightarrow> 'w tools \<Rightarrow> pystr \<Rightarrow> pystr \<Rightarrow> Song list \<Rightarrow> json \<Rightarrow> 'w state \<Rightarrow> ending \<times> 'w state"
where
  "resolve_and_add lib T playlist_description playlist_name songs playlist_id st =
     (case resolve_tracks lib T songs [] st of
        (Inl e, st1) \<Rightarrow> (Uncaught e, st1)
      | (Inr track_uris, st1) \<Rightarrow>
          (let st2 = emit st_info
                       (str_nat (length track_uris) @ lit '' track URIs resolved out of '' @
                        str_nat (length songs) @ lit '' requested.'') st1;
               st3 = add_tracks lib T playlist_id track_uris st2
           in (Finished,
               st3\<lparr>playlist_info :=
                     summary playlist_name playlist_description songs track_uris playlist_id\<rparr>)))"

subsection \<open>Stage 3: create the playlist\<close>

text \<open>
  \<^verbatim>\<open>playlist_name = f"AI: {playlist_title[:40]}"\<close>: a slice of a string or of a list;
  the other values raise (\<^verbatim>\<open>TypeError\<close>; a dict raises \<^verbatim>\<open>KeyError\<close> instead
  from Python 3.12 on).
\<close>

definition playlist_name_of :: "pylib \<Rightarrow> json \<Rightarrow> exn_class + pystr" where
  "playlist_name_of lib playlist_title =
     (case playlist_title of
        JStr t \<Rightarrow> Inr (lit ''AI: '' @ take 40 t)
      | JArr xs \<Rightarrow> Inr (lit ''AI: '' @ py_str lib (JArr (take 40 xs)))
      | _ \<Rightarrow> Inl TypeError)"

definition create_and_fill ::
  "pylib \<Rightarrow> 'w tools \<Rightarrow> pystr \<Rightarrow> json \<Rightarrow> Song list \<Rightarrow> json \<Rightarrow> 'w state \<Rightarrow> ending \<times> 'w state"
where
  "create_and_fill lib T playlist_description playlist_title songs user_id st =
     (case playlist_name_of lib playlist_title of
        Inl e \<Rightarrow> (Uncaught e, st)
      | Inr playlist_name \<Rightarrow>
          (case call_tool lib (lit ''Spotify (create_playlist)'') (create_playlist_tool T)
                  [user_id, JStr playlist_name] st of
             (Error err, st1) \<Rightarrow>
               (Stopped,
                append_error err
                  (emit st_text (entry_get err (lit ''traceback''))
                    (emit st_error
                       (lit ''Create playlist error: '' @ entry_get err (lit ''tool'') @ lit '': '' @
                        entry_get err (lit ''exception'')) st1)))
           | (Result playlist_response, st1) \<Rightarrow>
               (case get_attr playlist_response (lit ''id'') JNull of
                  Inl e \<Rightarrow> (Uncaught e, st1)
                | Inr playlist_id \<Rightarrow>
                    (if \<not> truthy lib playlist_id then
                       (Stopped,
                        append_error
                          [(lit ''tool'', lit ''create_playlist''),
                           (lit ''exception'', lit ''no playlist id returned'')]
                          (emit st_error (lit ''Failed to create playlist (no id returned).'') st1))
                     else resolve_and_add lib T playlist_description playlist_name songs
                            playlist_id
                            (emit st_success (lit ''Created playlist: '' @ playlist_name) st1)))))"

subsection \<open>Stage 2: identify the user\<close>

definition identify_and_continue ::
  "pylib \<Rightarrow> 'w tools \<Rightarrow> pystr \<Rightarrow> json \<Rightarrow> Song list \<Rightarrow> 'w state \<Rightarrow> ending \<times> 'w state"
where
  "identify_and_continue lib T playlist_description playlist_title songs st =
     (case call_tool lib (lit ''Spotify (get_current_user_profile)'') (user_profile_tool T) [] st of
        (Error err, st1) \<Rightarrow>
          (Stopped,
           append_error err
             (emit st_text (entry_get err (lit ''traceback''))
               (emit st_error
                  (lit ''Spotify user profile error: '' @ entry_get err (lit ''tool'') @ lit '': '' @
                   entry_get err (lit ''exception'')) st1)))
      | (Result user_profile, st1) \<Rightarrow>
          (case get_attr user_profile (lit ''id'') JNull of
             Inl e \<Rightarrow> (Uncaught e, st1)
           | Inr user_id \<Rightarrow>
               (if \<not> truthy lib user_id then
                  (Stopped,
                   emit st_error
                     (lit ''Could not retrieve Spotify user ID. Check your token / auth flow.'') st1)
                else create_and_fill lib T playlist_description playlist_title songs user_id
                       (emit st_success (lit ''Successfully validated Spotify credentials'') st1))))"

subsection \<open>The run\<close>

text \<open>
  Line 167 empties the error list; \<^verbatim>\<open>playlist_info\<close> is left as the session has
  it. When the call of the language model raises, the run records the error and ends:
  stages 2 to 6 are in the \<^verbatim>\<open>else\<close> branch of line 211.
\<close>

definition run ::
  "pylib \<Rightarrow> 'w tools \<Rightarrow> pystr \<Rightarrow> int \<Rightarrow> session \<Rightarrow> 'w \<Rightarrow> ending \<times> 'w state" where
  "run lib T playlist_description limit sess w =
     (let st0 = \<lparr>errors = [], playlist_info = playlist_info sess, world = w, calls = [],
                 screen = [], song_objects = None\<rparr>
      in if playlist_description = [] \<or> limit = 0 then
           (Finished, emit st_warning (lit ''Please provide playlist description and limit.'') st0)
         else
           (case call_tool lib (lit ''OpenAI (create_chat_completion)'') (chat_completion_tool T)
                   [messages playlist_description limit]
                   (emit st_info (lit ''Generating playlist...'') st0) of
              (Error err, st1) \<Rightarrow>
                (Finished,
                 (append_error err
                   (emit st_text (entry_get err (lit ''traceback''))
                     (emit st_error
                        (lit ''OpenAI tool error: '' @ entry_get err (lit ''tool'') @ lit '': '' @
                         entry_get err (lit ''exception'')) st1)))\<lparr>song_objects := Some []\<rparr>)
            | (Result result, st1) \<Rightarrow>
                (case read_completion lib playlist_description result of
                   Escaped e \<Rightarrow> (Uncaught e, st1)
                 | DecodeFailed e \<Rightarrow>
                     identify_and_continue lib T playlist_description
                       (JStr (default_title playlist_description)) []
                       ((emit st_error (lit ''Failed to decode JSON from OpenAI response: '' @ e) st1)
                          \<lparr>song_objects := Some []\<rparr>)
                 | Generated playlist_title songs \<Rightarrow>
                     identify_and_continue lib T playlist_description playlist_title songs
                       (st1\<lparr>song_objects := Some songs\<rparr>))))"

text \<open>
  Lines 129 to 132: what \<^verbatim>\<open>st.session_state\<close> holds before the first run.
\<close>

definition initial_session :: session where
  "initial_session = \<lparr>errors = [], playlist_info = JObj []\<rparr>"

text \<open>The program as the repository has it: the run with its own tools.\<close>

definition run_repo ::
  "pylib \<Rightarrow> 'w http \<Rightarrow> json \<Rightarrow> pystr \<Rightarrow> int \<Rightarrow> session \<Rightarrow> 'w \<Rightarrow> ending \<times> 'w state" where
  "run_repo lib http openai_api_key = run lib (repo_tools lib http openai_api_key)"

section \<open>Observations on a run\<close>

text \<open>
  The entries of the calls that raised, in the order of the calls; and what
  \<^verbatim>\<open>st.session_state\<close> retains of a run for the next one, however the run ended.
\<close>

fun failures :: "(pystr \<times> json list \<times> call_result) list \<Rightarrow> entry list" where
  "failures [] = []"
| "failures ((tool_name, args, Result r) # cs) = failures cs"
| "failures ((tool_name, args, Error err) # cs) = err # failures cs"

definition retained :: "'w state \<Rightarrow> session" where
  "retained st = \<lparr>errors = errors st, playlist_info = playlist_info st\<rparr>"


section \<open>Sample inputs\<close>

text \<open>
  Concrete inputs for the evaluations below: three JSON texts with the values they decode
  to, a runtime that decodes these texts and no other, a language-model completion, and
  stand-ins for the five tools over a world that says whether the language model
  answers, what the profile endpoint returns and how many of the next add-tracks calls
  raise. \<open>http_down\<close> is an HTTP layer where every request fails in transport,
  \<open>http_llm_only\<close> one where the language model answers and every other request fails
  in transport, \<open>http_broken\<close> one where every request raises an exception that is not
  a \<^verbatim>\<open>RequestException\<close>.
\<close>

definition qt :: "pystr \<Rightarrow> pystr" where
  "qt s = dquote # s @ [dquote]"

definition two_songs_text :: pystr where
  "two_songs_text =
     lit ''[{'' @ qt (lit ''title'') @ lit '': '' @ qt (lit ''A'') @ lit '', '' @ qt (lit ''artist'') @ lit '': '' @ qt (lit ''X'') @ lit ''}, {'' @
     qt (lit ''name'') @ lit '': '' @ qt (lit ''B'') @ lit '', '' @ qt (lit ''artists'') @ lit '': '' @ qt (lit ''Y'') @ lit ''}]''"

definition two_songs :: "json list" where
  "two_songs =
     [JObj [(lit ''title'', JStr (lit ''A'')), (lit ''artist'', JStr (lit ''X''))],
      JObj [(lit ''name'', JStr (lit ''B'')), (lit ''artists'', JStr (lit ''Y''))]]"

definition gap_songs_text :: pystr where
  "gap_songs_text =
     lit ''[{'' @ qt (lit ''title'') @ lit '': '' @ qt (lit ''A'') @ lit '', '' @ qt (lit ''artist'') @ lit '': '' @ qt (lit ''X'') @ lit ''}, {'' @
     qt (lit ''title'') @ lit '': '' @ qt [] @ lit '', '' @ qt (lit ''artist'') @ lit '': '' @ qt (lit ''Q'') @ lit ''}, {'' @
     qt (lit ''track'') @ lit '': '' @ qt (lit ''C'') @ lit '', '' @ qt (lit ''artist'') @ lit '': '' @ qt (lit ''Z'') @ lit ''}]''"

definition gap_songs :: "json list" where
  "gap_songs =
     [JObj [(lit ''title'', JStr (lit ''A'')), (lit ''artist'', JStr (lit ''X''))],
      JObj [(lit ''title'', JStr []), (lit ''artist'', JStr (lit ''Q''))],
      JObj [(lit ''track'', JStr (lit ''C'')), (lit ''artist'', JStr (lit ''Z''))]]"

definition rainy_text :: pystr where
  "rainy_text =
     lit ''{'' @ qt (lit ''playlist_title'') @ lit '': '' @ qt (lit ''Rainy Mood'') @ lit '', '' @ qt (lit ''songs'') @ lit '': [{'' @
     qt (lit ''title'') @ lit '': '' @ qt (lit ''A'') @ lit '', '' @ qt (lit ''artist'') @ lit '': '' @ qt (lit ''X'') @ lit ''}, {'' @
     qt (lit ''title'') @ lit '': '' @ qt (lit ''B'') @ lit '', '' @ qt (lit ''artist'') @ lit '': '' @ qt (lit ''Y'') @ lit ''}, {'' @
     qt (lit ''title'') @ lit '': '' @ qt (lit ''C'') @ lit '', '' @ qt (lit ''artist'') @ lit '': '' @ qt (lit ''Z'') @ lit ''}]}''"

definition rainy_value :: json where
  "rainy_value =
     JObj [(lit ''playlist_title'', JStr (lit ''Rainy Mood'')),
           (lit ''songs'', JArr [JObj [(lit ''title'', JStr (lit ''A'')), (lit ''artist'', JStr (lit ''X''))],
                             JObj [(lit ''title'', JStr (lit ''B'')), (lit ''artist'', JStr (lit ''Y''))],
                             JObj [(lit ''title'', JStr (lit ''C'')), (lit ''artist'', JStr (lit ''Z''))]])]"

definition sample_lib :: pylib where
  "sample_lib =
     \<lparr>json_loads = (\<lambda>s. case map_of [(two_songs_text, JArr two_songs),
                                          (gap_songs_text, JArr gap_songs),
                                          (rainy_text, rainy_value)] s of
                            Some v \<Rightarrow> Inr v
                          | None \<Rightarrow>
                              Inl (Exn JSONDecodeError
                                     (lit ''Expecting value: line 1 column 1 (char 0)''))),
      py_repr = (\<lambda>v. lit ''<repr>''),
      float_truthy = (\<lambda>f. True),
      format_exc = (\<lambda>e. lit ''Traceback (most recent call last): ...''),
      arity_error = (\<lambda>f n. f @ lit ''() called with the wrong number of positional arguments'')\<rparr>"

record services =
  llm_up :: bool
  profile :: json
  adds_to_fail :: nat

definition completion :: json where
  "completion =
     JObj [(lit ''choices'', JArr [JObj [(lit ''message'',
             JObj [(lit ''role'', JStr (lit ''assistant'')), (lit ''content'', JStr rainy_text)])]])]"

definition track_found :: "pystr \<Rightarrow> json" where
  "track_found uri = JObj [(lit ''tracks'', JObj [(lit ''items'', JArr [JObj [(lit ''uri'', JStr uri)]])])]"

definition stub_tools :: "services tools" where
  "stub_tools =
     \<lparr>chat_completion_tool =
        (\<lambda>args w. if llm_up w then (Inr completion, w)
                   else (Inl (Exn OtherException (lit ''service unavailable'')), w)),
      user_profile_tool = (\<lambda>args w. (Inr (profile w), w)),
      create_playlist_tool = (\<lambda>args w. (Inr (JObj [(lit ''id'', JStr (lit ''playlist1''))]), w)),
      search_tool =
        (\<lambda>args w.
           (if args = [JStr (lit ''track:A artist:X'')] then Inr (track_found (lit ''spotify:track:a''))
            else if args = [JStr (lit ''track:C artist:Z'')] then Inr (track_found (lit ''spotify:track:c''))
            else Inr (JObj [(lit ''tracks'', JObj [(lit ''items'', JArr [])])]), w)),
      add_items_tool =
        (\<lambda>args w.
           if 0 < adds_to_fail w
           then (Inl (Exn OtherException (lit ''write failed'')), w\<lparr>adds_to_fail := adds_to_fail w - 1\<rparr>)
           else (Inr (JObj [(lit ''snapshot_id'', JStr (lit ''s1''))]), w))\<rparr>"

definition up :: services where
  "up = \<lparr>llm_up = True, profile = JObj [(lit ''id'', JStr (lit ''user1''))], adds_to_fail = 0\<rparr>"

definition http_down :: "unit http" where
  "http_down = (\<lambda>req w. (Failed (Exn RequestException (lit ''Connection refused'')), w))"

definition http_llm_only :: "unit http" where
  "http_llm_only =
     (\<lambda>req w. (if url req = lit ''https://api.openai.com/v1/chat/completions'' then Body completion
                  else Failed (Exn RequestException (lit ''Connection refused'')), w))"

definition http_broken :: "unit http" where
  "http_broken = (\<lambda>req w. (Failed (Exn OtherException (lit ''response body is not JSON'')), w))"

section \<open>Literals\<close>

lemma lit_eq_iff [simp]: "lit a = lit b \<longleftrightarrow> a = b"
  by (simp add: lit_def inj_map_eq_map inj_on_def)

lemma lit_eq_Nil [simp]: "lit a = [] \<longleftrightarrow> a = []"
  by (simp add: lit_def)

section \<open>Properties of the chunking\<close>

lemma ceil_nat:
  fixes L B :: nat
  assumes "0 < B"
  shows "\<lceil>real L / real B\<rceil> = int ((L + B - 1) div B)"
proof -
  define q where "q = (L + B - 1) div B"
  have lo: "q * B \<le> L + B - 1" unfolding q_def by simp
  have hi: "L + B - 1 < q * B + B"
    unfolding q_def using assms dividend_less_div_times [of B "L + B - 1"] by simp
  have a: "L \<le> q * B" using hi assms by linarith
  have b: "q * B < L + B" using lo assms by linarith
  have "real L \<le> real (q * B)" using a by (rule iffD2 [OF of_nat_le_iff])
  then have up: "real L / real B \<le> of_int (int q)"
    using assms by (simp add: pos_divide_le_eq)
  have "real (q * B) < real (L + B)" using b by (rule iffD2 [OF of_nat_less_iff])
  then have "(real q - 1) * real B < real L" by (simp add: algebra_simps)
  then have dn: "of_int (int q) - 1 < real L / real B"
    using assms by (simp add: pos_less_divide_eq)
  show ?thesis unfolding q_def [symmetric] using dn up by (rule ceiling_unique)
qed

lemma ceil_step:
  fixes m sz :: nat
  assumes "0 < sz" "0 < m"
  shows "(m + sz - 1) div sz = Suc ((m - sz + sz - 1) div sz)"
proof (cases "sz \<le> m")
  case True
  define k where "k = m - sz + sz - 1"
  have "m + sz - 1 = k + sz" using True assms by (simp add: k_def)
  then have "(m + sz - 1) div sz = (k + sz) div sz" by simp
  also have "\<dots> = Suc (k div sz)" using assms(1) by simp
  finally show ?thesis by (simp add: k_def)
next
  case False
  define k where "k = m - 1"
  have "m - sz + sz - 1 < sz" using False assms by simp
  then have z: "(m - sz + sz - 1) div sz = 0" by simp
  have "m + sz - 1 = k + sz" using assms by (simp add: k_def)
  then have "(m + sz - 1) div sz = (k + sz) div sz" by simp
  also have "\<dots> = Suc (k div sz)" using assms(1) by simp
  also have "k div sz = 0" using False assms by (simp add: k_def)
  finally show ?thesis using z by simp
qed

lemma chunked_from_step:
  "0 < sz \<Longrightarrow> i < length xs \<Longrightarrow>
   chunked_from i xs sz = take sz (drop i xs) # chunked_from (i + sz) xs sz"
  by (subst chunked_from.simps) simp

lemma chunked_from_done:
  "\<not> (0 < sz \<and> i < length xs) \<Longrightarrow> chunked_from i xs sz = []"
  by (subst chunked_from.simps) simp

lemma length_chunked_from:
  "0 < sz \<Longrightarrow> length (chunked_from i xs sz) = (length xs - i + sz - 1) div sz"
proof (induction i xs sz rule: chunked_from.induct)
  case (1 i xs sz)
  show ?case
  proof (cases "i < length xs")
    case True
    have m: "0 < length xs - i" using True by simp
    have "length (chunked_from i xs sz) = Suc (length (chunked_from (i + sz) xs sz))"
      using True "1.prems" by (simp add: chunked_from_step)
    also have "\<dots> = Suc ((length xs - (i + sz) + sz - 1) div sz)"
      using "1.IH" True "1.prems" by simp
    also have "\<dots> = Suc ((length xs - i - sz + sz - 1) div sz)" by simp
    also have "\<dots> = (length xs - i + sz - 1) div sz"
      using ceil_step [OF "1.prems" m] by simp
    finally show ?thesis .
  next
    case False
    then show ?thesis using "1.prems" by (simp add: chunked_from_done)
  qed
qed

lemma concat_chunked_from:
  "0 < sz \<Longrightarrow> concat (chunked_from i xs sz) = drop i xs"
proof (induction i xs sz rule: chunked_from.induct)
  case (1 i xs sz)
  show ?case
  proof (cases "i < length xs")
    case True
    have "concat (chunked_from i xs sz) = take sz (drop i xs) @ drop (i + sz) xs"
      using True "1.prems" "1.IH" by (simp add: chunked_from_step)
    also have "drop (i + sz) xs = drop sz (drop i xs)" by (simp add: add.commute)
    also have "take sz (drop i xs) @ drop sz (drop i xs) = drop i xs"
      by (rule append_take_drop_id)
    finally show ?thesis .
  next
    case False
    then show ?thesis using "1.prems" by (simp add: chunked_from_done)
  qed
qed

lemma nth_chunked_from:
  "0 < sz \<Longrightarrow> k < length (chunked_from i xs sz) \<Longrightarrow>
   chunked_from i xs sz ! k = take sz (drop (i + k * sz) xs)"
proof (induction i xs sz arbitrary: k rule: chunked_from.induct)
  case (1 i xs sz)
  show ?case
  proof (cases "i < length xs")
    case True
    note step = chunked_from_step [OF "1.prems"(1) True]
    show ?thesis
    proof (cases k)
      case 0
      then show ?thesis by (simp add: step)
    next
      case (Suc j)
      have "j < length (chunked_from (i + sz) xs sz)"
        using "1.prems"(2) Suc by (simp add: step)
      then have "chunked_from (i + sz) xs sz ! j = take sz (drop (i + sz + j * sz) xs)"
        using "1.IH" True "1.prems"(1) by simp
      then show ?thesis using Suc by (simp add: step add.assoc add.commute)
    qed
  next
    case False
    then show ?thesis using "1.prems" by (simp add: chunked_from_done)
  qed
qed

lemma chunk_length_le:
  "0 < sz \<Longrightarrow> c \<in> set (chunked_from i xs sz) \<Longrightarrow> length c \<le> sz"
  by (metis in_set_conv_nth nth_chunked_from length_take min.cobounded2)

text \<open>
  Claim C2. For a list of track identifiers of length \<open>L\<close> and a batch size \<open>B > 0\<close>,
  \<open>chunked\<close> returns normally, with exactly \<open>\<lceil>L / B\<rceil>\<close> chunks; each chunk has at most
  \<open>B\<close> identifiers; the chunk at position \<open>k\<close> is the slice of the input that starts at
  \<open>k * B\<close> (the chunks are contiguous and in input order); and the concatenation of the
  chunks in order is the input list.
\<close>

theorem chunked_partition:
  assumes "0 < B"
  shows "\<exists>chunks. chunked ids B = Inr chunks
           \<and> int (length chunks) = \<lceil>real (length ids) / real_of_int B\<rceil>
           \<and> (\<forall>c \<in> set chunks. int (length c) \<le> B)
           \<and> (\<forall>k < length chunks. chunks ! k = take (nat B) (drop (k * nat B) ids))
           \<and> concat chunks = ids"
proof -
  define n where "n = nat B"
  have n: "0 < n" and B: "B = int n" using assms by (simp_all add: n_def)
  let ?cs = "chunked_from 0 ids n"
  have 1: "chunked ids B = Inr ?cs" using assms by (simp add: chunked_def n_def)
  have 2: "int (length ?cs) = \<lceil>real (length ids) / real_of_int B\<rceil>"
    using ceil_nat [OF n, of "length ids"] by (simp add: length_chunked_from [OF n] B)
  have 3: "\<forall>c \<in> set ?cs. int (length c) \<le> B"
    using chunk_length_le [OF n] by (auto simp: B)
  have 4: "\<forall>k < length ?cs. ?cs ! k = take (nat B) (drop (k * nat B) ids)"
    using nth_chunked_from [OF n, of _ 0 ids] by (simp add: B)
  have 5: "concat ?cs = ids" by (simp add: concat_chunked_from [OF n])
  show ?thesis using 1 2 3 4 5 by blast
qed

theorem chunked_partition_witness:
  "(0::int) < 2 \<and> (\<exists>chunks. chunked [JStr (lit ''a''), JStr (lit ''b''), JStr (lit ''c''), JStr (lit ''d''), JStr (lit ''e'')] 2 = Inr chunks
           \<and> int (length chunks) = \<lceil>real (length [JStr (lit ''a''), JStr (lit ''b''), JStr (lit ''c''), JStr (lit ''d''), JStr (lit ''e'')]) / real_of_int 2\<rceil>
           \<and> (\<forall>c \<in> set chunks. int (length c) \<le> 2)
           \<and> (\<forall>k < length chunks. chunks ! k = take (nat 2) (drop (k * nat 2) [JStr (lit ''a''), JStr (lit ''b''), JStr (lit ''c''), JStr (lit ''d''), JStr (lit ''e'')]))
           \<and> concat chunks = [JStr (lit ''a''), JStr (lit ''b''), JStr (lit ''c''), JStr (lit ''d''), JStr (lit ''e'')])"
  using chunked_partition [of 2 "[JStr (lit ''a''), JStr (lit ''b''), JStr (lit ''c''), JStr (lit ''d''), JStr (lit ''e'')]"] by simp

section \<open>Properties of the Song-List Parser\<close>

lemma parse_items_acc:
  "parse_items lib items acc = acc @ parse_items lib items []"
proof (induction items arbitrary: acc)
  case Nil
  show ?case by simp
next
  case (Cons item items)
  show ?case
  proof (cases "parse_item lib item")
    case None
    then show ?thesis using Cons.IH [of acc] by simp
  next
    case (Some song)
    then show ?thesis using Cons.IH [of "acc @ [song]"] Cons.IH [of "[song]"] by simp
  qed
qed

lemma parse_items_append:
  "parse_items lib (xs @ ys) [] = parse_items lib xs [] @ parse_items lib ys []"
proof (induction xs)
  case Nil
  show ?case by simp
next
  case (Cons x xs)
  show ?case
  proof (cases "parse_item lib x")
    case None
    then show ?thesis using Cons.IH by simp
  next
    case (Some song)
    then show ?thesis
      using Cons.IH parse_items_acc [of lib "xs @ ys" "[song]"] parse_items_acc [of lib xs "[song]"]
      by simp
  qed
qed

lemma parse_item_complete:
  "truthy lib (item_title lib kvs) \<Longrightarrow> truthy lib (item_artist lib kvs) \<Longrightarrow>
   parse_item lib (JObj kvs) =
     Some \<lparr>title = JStr (strip (py_str lib (item_title lib kvs))),
           artist = JStr (strip (py_str lib (item_artist lib kvs)))\<rparr>"
  by (simp add: parse_item_def Let_def)

lemma parse_item_incomplete:
  "\<not> truthy lib (item_title lib kvs) \<or> \<not> truthy lib (item_artist lib kvs) \<Longrightarrow>
   parse_item lib (JObj kvs) = None"
  by (auto simp: parse_item_def Let_def)

lemma parse_items_all_complete:
  assumes "\<forall>item \<in> set items. \<exists>kvs. item = JObj kvs \<and> truthy lib (item_title lib kvs)
             \<and> truthy lib (item_artist lib kvs)"
  shows "length (parse_items lib items []) = length items
       \<and> (\<forall>i < length items. \<forall>kvs. items ! i = JObj kvs \<longrightarrow>
            parse_items lib items [] ! i =
              \<lparr>title = JStr (strip (py_str lib (item_title lib kvs))),
               artist = JStr (strip (py_str lib (item_artist lib kvs)))\<rparr>)"
  using assms
proof (induction items)
  case Nil
  show ?case by simp
next
  case (Cons item items)
  from Cons.prems obtain kvs where item: "item = JObj kvs"
    and t: "truthy lib (item_title lib kvs)" and a: "truthy lib (item_artist lib kvs)"
    by auto
  let ?song = "\<lparr>title = JStr (strip (py_str lib (item_title lib kvs))),
               artist = JStr (strip (py_str lib (item_artist lib kvs)))\<rparr>"
  have eq: "parse_items lib (item # items) [] = ?song # parse_items lib items []"
    using parse_item_complete [OF t a] parse_items_acc [of lib items "[?song]"]
    by (simp add: item)
  have IH: "length (parse_items lib items []) = length items
       \<and> (\<forall>i < length items. \<forall>kvs. items ! i = JObj kvs \<longrightarrow>
            parse_items lib items [] ! i =
              \<lparr>title = JStr (strip (py_str lib (item_title lib kvs))),
               artist = JStr (strip (py_str lib (item_artist lib kvs)))\<rparr>)"
    using Cons.IH Cons.prems by simp
  show ?case
  proof (intro conjI allI impI)
    show "length (parse_items lib (item # items) []) = length (item # items)"
      using IH eq by simp
  next
    fix i kvs'
    assume i: "i < length (item # items)" and k: "(item # items) ! i = JObj kvs'"
    show "parse_items lib (item # items) [] ! i =
            \<lparr>title = JStr (strip (py_str lib (item_title lib kvs'))),
             artist = JStr (strip (py_str lib (item_artist lib kvs')))\<rparr>"
    proof (cases i)
      case 0
      then show ?thesis using k item eq by simp
    next
      case (Suc j)
      then show ?thesis using i k IH eq by simp
    qed
  qed
qed

text \<open>
  Claim C6. Let the input text decode to a JSON array of at most \<open>N\<close> items, each of them
  well formed: an object from which the parser reads a title (under \<^verbatim>\<open>title\<close>,
  \<^verbatim>\<open>name\<close> or \<^verbatim>\<open>track\<close>) and an artist (under \<^verbatim>\<open>artist\<close> or
  \<^verbatim>\<open>artists\<close>), both true values. Then the parser called with limit \<open>N\<close> returns
  normally, with exactly as many songs as the array has items, and the song at position
  \<open>i\<close> is the one read from the item at position \<open>i\<close>: its title and artist as text,
  stripped.
\<close>

theorem parser_returns_every_well_formed_item:
  assumes "json_loads lib raw = Inr (JArr items)"
      and "int (length items) \<le> N"
      and "\<forall>item \<in> set items. \<exists>kvs. item = JObj kvs \<and> truthy lib (item_title lib kvs)
             \<and> truthy lib (item_artist lib kvs)"
  shows "\<exists>songs. parse_openai_song_list lib raw N = Inr songs
           \<and> length songs = length items
           \<and> (\<forall>i < length items. \<forall>kvs. items ! i = JObj kvs \<longrightarrow>
                songs ! i = \<lparr>title = JStr (strip (py_str lib (item_title lib kvs))),
                             artist = JStr (strip (py_str lib (item_artist lib kvs)))\<rparr>)"
proof -
  have "slice_to items N = items" using assms(2) by (simp add: slice_to_def)
  then have "parse_openai_song_list lib raw N = Inr (parse_items lib items [])"
    using assms(1) by (simp add: parse_openai_song_list_def)
  then show ?thesis using parse_items_all_complete [OF assms(3)] by simp
qed

theorem parser_returns_every_well_formed_item_witness:
  "json_loads sample_lib two_songs_text = Inr (JArr two_songs)
   \<and> int (length two_songs) \<le> 2
   \<and> parse_openai_song_list sample_lib two_songs_text 2 =
       Inr [\<lparr>title = JStr (lit ''A''), artist = JStr (lit ''X'')\<rparr>, \<lparr>title = JStr (lit ''B''), artist = JStr (lit ''Y'')\<rparr>]"
proof -
  have 1: "json_loads sample_lib two_songs_text = Inr (JArr two_songs)"
    by (simp add: lit_def sample_lib_def)
  have 2: "int (length two_songs) \<le> 2" by (simp add: lit_def two_songs_def)
  have 3: "\<forall>item \<in> set two_songs. \<exists>kvs. item = JObj kvs \<and> truthy sample_lib (item_title sample_lib kvs)
             \<and> truthy sample_lib (item_artist sample_lib kvs)"
    by (simp add: lit_def two_songs_def item_title_def item_artist_def py_or_def dict_get_def
        dict_get_default_def)
  from parser_returns_every_well_formed_item [OF 1 2 3]
  obtain songs where s: "parse_openai_song_list sample_lib two_songs_text 2 = Inr songs"
    and l: "length songs = length two_songs"
    and n: "\<forall>i < length two_songs. \<forall>kvs. two_songs ! i = JObj kvs \<longrightarrow>
                songs ! i = \<lparr>title = JStr (strip (py_str sample_lib (item_title sample_lib kvs))),
                             artist = JStr (strip (py_str sample_lib (item_artist sample_lib kvs)))\<rparr>"
    by blast
  have l2: "length songs = 2" using l by (simp add: lit_def two_songs_def)
  have n0: "songs ! 0 = \<lparr>title = JStr (lit ''A''), artist = JStr (lit ''X'')\<rparr>"
    using n [rule_format, of 0 "[(lit ''title'', JStr (lit ''A'')), (lit ''artist'', JStr (lit ''X''))]"]
    by (simp add: lit_def two_songs_def item_title_def item_artist_def py_or_def dict_get_def
        dict_get_default_def py_str_def strip_def py_isspace_def)
  have n1: "songs ! 1 = \<lparr>title = JStr (lit ''B''), artist = JStr (lit ''Y'')\<rparr>"
    using n [rule_format, of 1 "[(lit ''name'', JStr (lit ''B'')), (lit ''artists'', JStr (lit ''Y''))]"]
    by (simp add: lit_def two_songs_def item_title_def item_artist_def py_or_def dict_get_def
        dict_get_default_def py_str_def strip_def py_isspace_def)
  have "songs = [songs ! 0, songs ! 1]"
    using l2 by (cases songs; cases "tl songs"; cases "tl (tl songs)") auto 
  then show ?thesis using 1 2 s n0 n1 by simp
qed

text \<open>
  Claim C7. Let the input text decode to a JSON array, and let an item among its first
  \<open>N\<close> be an object whose title or artist is missing after normalization (no true value
  under \<^verbatim>\<open>title\<close>, \<^verbatim>\<open>name\<close>, \<^verbatim>\<open>track\<close>, or none under \<^verbatim>\<open>artist\<close>,
  \<^verbatim>\<open>artists\<close>). Then the parse does not fail, the item yields no song, and the result
  is the songs of the items before it followed by the songs of the items after it, each
  parsed as it is without the incomplete item.
\<close>

theorem parser_skips_incomplete_item:
  assumes "json_loads lib raw = Inr (JArr items)"
      and "slice_to items N = before @ [JObj kvs] @ after"
      and "\<not> truthy lib (item_title lib kvs) \<or> \<not> truthy lib (item_artist lib kvs)"
  shows "parse_openai_song_list lib raw N =
           Inr (parse_items lib before [] @ parse_items lib after [])"
proof -
  have "parse_items lib (before @ [JObj kvs] @ after) [] =
          parse_items lib before [] @ parse_items lib [JObj kvs] [] @ parse_items lib after []"
    by (simp only: parse_items_append)
  also have "parse_items lib [JObj kvs] [] = []"
    using parse_item_incomplete [OF assms(3)] by simp
  finally show ?thesis using assms(1,2) by (simp add: parse_openai_song_list_def)
qed

theorem parser_skips_incomplete_item_witness:
  "parse_openai_song_list sample_lib gap_songs_text 3 =
     Inr [\<lparr>title = JStr (lit ''A''), artist = JStr (lit ''X'')\<rparr>, \<lparr>title = JStr (lit ''C''), artist = JStr (lit ''Z'')\<rparr>]"
proof -
  have 1: "json_loads sample_lib gap_songs_text = Inr (JArr gap_songs)"
    by (simp add: lit_def sample_lib_def two_songs_text_def gap_songs_text_def qt_def)
  have 2: "slice_to gap_songs 3 =
      [JObj [(lit ''title'', JStr (lit ''A'')), (lit ''artist'', JStr (lit ''X''))]]
      @ [JObj [(lit ''title'', JStr []), (lit ''artist'', JStr (lit ''Q''))]]
      @ [JObj [(lit ''track'', JStr (lit ''C'')), (lit ''artist'', JStr (lit ''Z''))]]"
    by (simp add: lit_def slice_to_def gap_songs_def)
  have 3: "\<not> truthy sample_lib (item_title sample_lib [(lit ''title'', JStr []), (lit ''artist'', JStr (lit ''Q''))])
         \<or> \<not> truthy sample_lib (item_artist sample_lib [(lit ''title'', JStr []), (lit ''artist'', JStr (lit ''Q''))])"
    by (simp add: lit_def item_title_def py_or_def dict_get_def dict_get_default_def)
  show ?thesis
    using parser_skips_incomplete_item [OF 1 2 3]
    by (simp add: lit_def parse_item_def item_title_def item_artist_def py_or_def dict_get_def
        dict_get_default_def py_str_def strip_def py_isspace_def)
qed

section \<open>Properties of the track extractor\<close>

lemma extract_falsy:
  "\<not> truthy lib response \<Longrightarrow> extract_first_track_uri lib response = Inr JNull"
  by (simp add: extract_first_track_uri_def)

lemma extract_dict:
  "extract_first_track_uri lib (JObj kvs) =
     (if kvs = [] \<or> \<not> truthy lib (dict_get kvs (lit ''tracks'')) then Inr JNull
      else (case get_attr (dict_get kvs (lit ''tracks'')) (lit ''items'') (JArr []) of
              Inl e \<Rightarrow> Inl e
            | Inr items \<Rightarrow>
                (if \<not> truthy lib items then Inr JNull
                 else (case subscript_0 items of
                         Inl e \<Rightarrow> Inl e
                       | Inr first \<Rightarrow> get_attr first (lit ''uri'') JNull))))"
  by (simp add: extract_first_track_uri_def get_attr_def dict_get_def)

text \<open>
  Claim C10, as amended. For a search response that is a dict, the extractor looks at the
  first element of \<^verbatim>\<open>tracks.items\<close> only and returns without raising when the
  response has the shape of the service: it returns \<^verbatim>\<open>None\<close> when \<^verbatim>\<open>tracks\<close> is
  absent or not a true value; when \<^verbatim>\<open>tracks\<close> is a dict, it returns \<^verbatim>\<open>None\<close> if
  \<^verbatim>\<open>items\<close> is absent or not a true value, and if \<^verbatim>\<open>items\<close> is a list whose first
  element is a dict, it returns the \<^verbatim>\<open>uri\<close> value of that first element
  (\<^verbatim>\<open>None\<close> when it has no such key), whatever the later elements are. A response that
  is not a true value also gives \<^verbatim>\<open>None\<close>.
\<close>

theorem extract_first_track_uri_first_item_only:
  "(\<not> truthy lib response0 \<longrightarrow> extract_first_track_uri lib response0 = Inr JNull)
   \<and> (\<not> truthy lib (dict_get kvs1 (lit ''tracks'')) \<longrightarrow>
      extract_first_track_uri lib (JObj kvs1) = Inr JNull)
   \<and> (dict_get kvs2 (lit ''tracks'') = JObj tracks2
        \<and> \<not> truthy lib (dict_get_default tracks2 (lit ''items'') (JArr [])) \<longrightarrow>
      extract_first_track_uri lib (JObj kvs2) = Inr JNull)
   \<and> (dict_get kvs3 (lit ''tracks'') = JObj tracks3
        \<and> dict_get_default tracks3 (lit ''items'') (JArr []) = JArr (JObj first # others) \<longrightarrow>
      extract_first_track_uri lib (JObj kvs3) = Inr (dict_get first (lit ''uri'')))"
proof (intro conjI impI)
  assume "\<not> truthy lib response0"
  then show "extract_first_track_uri lib response0 = Inr JNull"
    by (rule extract_falsy)
next
  assume "\<not> truthy lib (dict_get kvs1 (lit ''tracks''))"
  then show "extract_first_track_uri lib (JObj kvs1) = Inr JNull"
    by (simp add: extract_dict)
next
  assume "dict_get kvs2 (lit ''tracks'') = JObj tracks2
        \<and> \<not> truthy lib (dict_get_default tracks2 (lit ''items'') (JArr []))"
  then show "extract_first_track_uri lib (JObj kvs2) = Inr JNull"
    by (simp add: extract_dict get_attr_def)
next
  assume a: "dict_get kvs3 (lit ''tracks'') = JObj tracks3
        \<and> dict_get_default tracks3 (lit ''items'') (JArr []) = JArr (JObj first # others)"
  then have "tracks3 \<noteq> []" by (auto simp: dict_get_default_def)
  moreover have "kvs3 \<noteq> []" using a by (auto simp: dict_get_def dict_get_default_def)
  ultimately show "extract_first_track_uri lib (JObj kvs3) = Inr (dict_get first (lit ''uri''))"
    using a by (simp add: extract_dict get_attr_def subscript_0_def dict_get_def)
qed

text \<open>
  The theorem at four responses: the dict a tool returns after a transport failure, a
  response with no items, one whose first item has no \<^verbatim>\<open>uri\<close> while the second has,
  and one with two tracks.
\<close>

theorem extract_first_track_uri_first_item_only_witness:
  "extract_first_track_uri sample_lib JNull = Inr JNull
   \<and> extract_first_track_uri sample_lib
        (JObj [(lit ''error'', JStr (lit ''An error occurred while searching for the item.''))]) = Inr JNull
   \<and> extract_first_track_uri sample_lib (JObj [(lit ''tracks'', JObj [(lit ''items'', JArr [])])]) = Inr JNull
   \<and> extract_first_track_uri sample_lib
        (JObj [(lit ''tracks'', JObj [(lit ''items'',
           JArr [JObj [(lit ''name'', JStr (lit ''A''))], JObj [(lit ''uri'', JStr (lit ''spotify:track:2''))]])])]) = Inr JNull
   \<and> extract_first_track_uri sample_lib
        (JObj [(lit ''tracks'', JObj [(lit ''items'',
           JArr [JObj [(lit ''uri'', JStr (lit ''spotify:track:1''))], JObj [(lit ''uri'', JStr (lit ''spotify:track:2''))]])])])
       = Inr (JStr (lit ''spotify:track:1''))"
  using extract_first_track_uri_first_item_only
    [of sample_lib JNull "[(lit ''error'', JStr (lit ''An error occurred while searching for the item.''))]"
        "[(lit ''tracks'', JObj [(lit ''items'', JArr [])])]" "[(lit ''items'', JArr [])]"
        "[(lit ''tracks'', JObj [(lit ''items'',
           JArr [JObj [(lit ''uri'', JStr (lit ''spotify:track:1''))], JObj [(lit ''uri'', JStr (lit ''spotify:track:2''))]])])]"
        "[(lit ''items'',
           JArr [JObj [(lit ''uri'', JStr (lit ''spotify:track:1''))], JObj [(lit ''uri'', JStr (lit ''spotify:track:2''))]])]"
        "[(lit ''uri'', JStr (lit ''spotify:track:1''))]" "[JObj [(lit ''uri'', JStr (lit ''spotify:track:2''))]]"]
    extract_first_track_uri_first_item_only
    [of sample_lib JNull "[]" "[]" "[]"
        "[(lit ''tracks'', JObj [(lit ''items'',
           JArr [JObj [(lit ''name'', JStr (lit ''A''))], JObj [(lit ''uri'', JStr (lit ''spotify:track:2''))]])])]"
        "[(lit ''items'',
           JArr [JObj [(lit ''name'', JStr (lit ''A''))], JObj [(lit ''uri'', JStr (lit ''spotify:track:2''))]])]"
        "[(lit ''name'', JStr (lit ''A''))]" "[JObj [(lit ''uri'', JStr (lit ''spotify:track:2''))]]"]
  by (simp add: lit_def dict_get_def dict_get_default_def)

text \<open>
  Claim C10 as stated, with no condition on the response, fails: on a response whose
  first item is \<^verbatim>\<open>null\<close>, \<^verbatim>\<open>first.get("uri")\<close> raises \<^verbatim>\<open>AttributeError\<close>.
\<close>

theorem extract_first_track_uri_raises:
  "extract_first_track_uri sample_lib
     (JObj [(lit ''tracks'', JObj [(lit ''items'', JArr [JNull, JObj [(lit ''uri'', JStr (lit ''spotify:track:2''))]])])])
   = Inl AttributeError"
  by (simp add: lit_def extract_first_track_uri_def get_attr_def dict_get_default_def subscript_0_def)

section \<open>Properties of the orchestrator\<close>

subsection \<open>The Batch Adder loop\<close>

lemma call_tool_effect:
  assumes "call_tool lib tool_name func args st = (r, st')"
  shows "calls st' = calls st @ [(tool_name, args, r)]" and "errors st' = errors st"
    and "playlist_info st' = playlist_info st" and "screen st' = screen st"
    and "song_objects st' = song_objects st"
  using assms by (auto simp: call_tool_def split: prod.splits)

text \<open>
  Claim C5. For every sequence of chunks the Batch Adder submits, and whatever each call
  does, the loop makes one add-tracks call for each chunk, in order, with the playlist
  identifier and that chunk: a call that raises at position \<open>k\<close> does not keep the calls
  for the later chunks from being made. The error list grows by one entry for each call
  that raised, in the order of the calls, and by nothing else.
\<close>

theorem every_chunk_is_attempted:
  "\<exists>new. calls (add_chunks lib T playlist_id chunks st) = calls st @ new
      \<and> map (\<lambda>c. (fst c, fst (snd c))) new =
          map (\<lambda>chunk. (lit ''Spotify (add_items_to_playlist)'', [playlist_id, JArr chunk])) chunks
      \<and> errors (add_chunks lib T playlist_id chunks st) = errors st @ failures new"
proof (induction chunks arbitrary: st)
  case Nil
  show ?case by simp
next
  case (Cons chunk chunks)
  obtain r st1 where c: "call_tool lib (lit ''Spotify (add_items_to_playlist)'') (add_items_tool T)
             [playlist_id, JArr chunk] st = (r, st1)"
    by (cases "call_tool lib (lit ''Spotify (add_items_to_playlist)'') (add_items_tool T)
             [playlist_id, JArr chunk] st") 
  note eff = call_tool_effect [OF c]
  show ?case
  proof (cases r)
    case (Result v)
    from Cons.IH [of st1] obtain new where
      n: "calls (add_chunks lib T playlist_id chunks st1) = calls st1 @ new"
      "map (\<lambda>c. (fst c, fst (snd c))) new =
          map (\<lambda>chunk. (lit ''Spotify (add_items_to_playlist)'', [playlist_id, JArr chunk])) chunks"
      "errors (add_chunks lib T playlist_id chunks st1) = errors st1 @ failures new"
      by blast
    let ?new = "(lit ''Spotify (add_items_to_playlist)'', [playlist_id, JArr chunk], r) # new"
    have "calls (add_chunks lib T playlist_id (chunk # chunks) st) = calls st @ ?new"
      using c Result n(1) eff(1) by simp
    moreover have "map (\<lambda>c. (fst c, fst (snd c))) ?new =
          map (\<lambda>chunk. (lit ''Spotify (add_items_to_playlist)'', [playlist_id, JArr chunk])) (chunk # chunks)"
      using n(2) by simp
    moreover have "errors (add_chunks lib T playlist_id (chunk # chunks) st) = errors st @ failures ?new"
      using c Result n(3) eff(2) by simp
    ultimately show ?thesis by blast
  next
    case (Error err)
    let ?st2 = "append_error err
              (emit st_text (entry_get err (lit ''traceback''))
                (emit st_error
                   (lit ''Failed to add tracks to playlist: '' @ entry_get err (lit ''tool'') @ lit '': '' @
                    entry_get err (lit ''exception'')) st1))"
    have c2: "calls ?st2 = calls st1" and e2: "errors ?st2 = errors st1 @ [err]"
      by (simp_all add: append_error_def emit_def)
    from Cons.IH [of ?st2] obtain new where
      n: "calls (add_chunks lib T playlist_id chunks ?st2) = calls ?st2 @ new"
      "map (\<lambda>c. (fst c, fst (snd c))) new =
          map (\<lambda>chunk. (lit ''Spotify (add_items_to_playlist)'', [playlist_id, JArr chunk])) chunks"
      "errors (add_chunks lib T playlist_id chunks ?st2) = errors ?st2 @ failures new"
      by blast
    let ?new = "(lit ''Spotify (add_items_to_playlist)'', [playlist_id, JArr chunk], r) # new"
    have "calls (add_chunks lib T playlist_id (chunk # chunks) st) = calls st @ ?new"
      using c Error n(1) eff(1) c2 by simp
    moreover have "map (\<lambda>c. (fst c, fst (snd c))) ?new =
          map (\<lambda>chunk. (lit ''Spotify (add_items_to_playlist)'', [playlist_id, JArr chunk])) (chunk # chunks)"
      using n(2) by simp
    moreover have "errors (add_chunks lib T playlist_id (chunk # chunks) st) = errors st @ failures ?new"
      using c Error n(3) eff(2) e2 by simp
    ultimately show ?thesis by blast
  qed
qed

text \<open>
  The theorem at two chunks, with a tool whose first call raises and whose second call
  returns: both calls are made, and the error list holds the entry of the first.
\<close>

theorem every_chunk_is_attempted_witness:
  "calls (add_chunks sample_lib stub_tools (JStr (lit ''playlist1''))
            [[JStr (lit ''spotify:track:a'')], [JStr (lit ''spotify:track:c'')]]
            \<lparr>errors = [], playlist_info = JObj [], world = up\<lparr>adds_to_fail := 1\<rparr>, calls = [],
             screen = [], song_objects = None\<rparr>) =
     [(lit ''Spotify (add_items_to_playlist)'', [JStr (lit ''playlist1''), JArr [JStr (lit ''spotify:track:a'')]],
       Error [(lit ''tool'', lit ''Spotify (add_items_to_playlist)''), (lit ''exception'', lit ''write failed''),
              (lit ''traceback'', lit ''Traceback (most recent call last): ...'')]),
      (lit ''Spotify (add_items_to_playlist)'', [JStr (lit ''playlist1''), JArr [JStr (lit ''spotify:track:c'')]],
       Result (JObj [(lit ''snapshot_id'', JStr (lit ''s1''))]))]
   \<and> errors (add_chunks sample_lib stub_tools (JStr (lit ''playlist1''))
            [[JStr (lit ''spotify:track:a'')], [JStr (lit ''spotify:track:c'')]]
            \<lparr>errors = [], playlist_info = JObj [], world = up\<lparr>adds_to_fail := 1\<rparr>, calls = [],
             screen = [], song_objects = None\<rparr>) =
     [[(lit ''tool'', lit ''Spotify (add_items_to_playlist)''), (lit ''exception'', lit ''write failed''),
       (lit ''traceback'', lit ''Traceback (most recent call last): ...'')]]"
  using every_chunk_is_attempted [of sample_lib stub_tools "JStr (lit ''playlist1'')"
      "[[JStr (lit ''spotify:track:a'')], [JStr (lit ''spotify:track:c'')]]"
      "\<lparr>errors = [], playlist_info = JObj [], world = up\<lparr>adds_to_fail := 1\<rparr>, calls = [],
             screen = [], song_objects = None\<rparr>"]
  by (simp add: lit_def call_tool_def safe_call_def emit_def append_error_def entry_get_def
      stub_tools_def up_def sample_lib_def)

subsection \<open>Evaluation of sample runs\<close>

lemma rainy_loads: "json_loads sample_lib rainy_text = Inr rainy_value"
  by (simp add: lit_def sample_lib_def two_songs_text_def gap_songs_text_def rainy_text_def qt_def)

lemmas eval_defs = lit_def run_def call_tool_def safe_call_def emit_def append_error_def entry_get_def
  read_completion_def completion_content_def subscript_key_def subscript_0_def get_attr_def
  dict_get_default_def dict_get_def iterate_def song_of_entry_def contains_def
  identify_and_continue_def create_and_fill_def playlist_name_of_def resolve_and_add_def
  search_query_def py_str_def song_str_def extract_first_track_uri_def add_tracks_def
  chunked_def SPOTIFY_ADD_BATCH_SIZE_def summary_def default_title_def
  stub_tools_def up_def initial_session_def completion_def rainy_loads rainy_value_def track_found_def
  chunked_from.simps str_nat.simps retained_def

subsection \<open>Transport failures inside the tools\<close>

text \<open>
  Claim C1, evaluated where a request fails in transport. The search tool returns a dict
  with the key \<^verbatim>\<open>error\<close> instead of raising, so \<open>safe_call\<close> reports a result; and
  a run of the program whose language-model request fails records no entry in the error
  list: the returned dict is taken as the completion, and the \<^verbatim>\<open>KeyError\<close> of
  \<^verbatim>\<open>["choices"]\<close> escapes the run.
\<close>

theorem network_failure_is_not_recorded:
  "safe_call sample_lib (lit ''Spotify (search_for_item)'') (search_for_item sample_lib http_down)
       [JStr (lit ''track:A artist:X''), JStr (lit ''token'')] () =
     (Result (JObj [(lit ''error'', JStr (lit ''An error occurred while searching for the item.''))]), ())
   \<and> fst (run_repo sample_lib http_down (JStr (lit ''sk-test'')) (lit ''songs about rain'') 3 initial_session ())
     = Uncaught KeyError
   \<and> errors (snd (run_repo sample_lib http_down (JStr (lit ''sk-test'')) (lit ''songs about rain'') 3 initial_session ())) = []
   \<and> calls (snd (run_repo sample_lib http_down (JStr (lit ''sk-test'')) (lit ''songs about rain'') 3 initial_session ())) =
       [(lit ''OpenAI (create_chat_completion)'', [messages (lit ''songs about rain'') 3],
         Result (JObj [(lit ''error'', JStr (lit ''An error occurred while creating chat completion.''))]))]"
  by (simp add: lit_def run_repo_def repo_tools_def create_chat_completion_def chat_request_def search_for_item_def
      search_request_def send_def http_down_def
      run_def call_tool_def safe_call_def emit_def read_completion_def completion_content_def
      subscript_key_def initial_session_def)

subsection \<open>Failure of the language-model call\<close>

text \<open>
  Claim C3, evaluated where the call of the language model fails: its request fails in
  transport or with an HTTP error status, a \<^verbatim>\<open>RequestException\<close>. The tool returns a
  dict instead of raising, so the run takes the branch of a completed call: it records no
  error (the claim says exactly one, tied to \<^verbatim>\<open>create_chat_completion\<close>), it never
  assigns the song list (the claim says it is empty), and it ends with the
  \<^verbatim>\<open>KeyError\<close> of \<^verbatim>\<open>["choices"]\<close> escaping. The call of stage 1 is its only tool
  call: stages 2 to 5 do not execute and Finalize is not reached, as the claim says.
\<close>

theorem transport_failure_of_language_model:
  assumes "playlist_description \<noteq> []" and "limit \<noteq> 0"
      and "http (chat_request lib openai_api_key (messages playlist_description limit)) w
             = (Failed exc, w')"
      and "cls exc = RequestException"
  shows "fst (run_repo lib http openai_api_key playlist_description limit sess w)
           = Uncaught KeyError
       \<and> errors (snd (run_repo lib http openai_api_key playlist_description limit sess w)) = []
       \<and> song_objects (snd (run_repo lib http openai_api_key playlist_description limit sess w))
           = None
       \<and> calls (snd (run_repo lib http openai_api_key playlist_description limit sess w)) =
           [(lit ''OpenAI (create_chat_completion)'', [messages playlist_description limit],
             Result (JObj [(lit ''error'',
                            JStr (lit ''An error occurred while creating chat completion.''))]))]
       \<and> playlist_info (snd (run_repo lib http openai_api_key playlist_description limit sess w))
           = playlist_info sess"
  using assms
  by (simp add: run_repo_def repo_tools_def create_chat_completion_def send_def
      run_def call_tool_def safe_call_def emit_def read_completion_def completion_content_def
      subscript_key_def)

text \<open>The theorem where every request is refused.\<close>

theorem transport_failure_of_language_model_witness:
  "fst (run_repo sample_lib http_down (JStr (lit ''sk-test'')) (lit ''songs about rain'') 3
          initial_session ()) = Uncaught KeyError
   \<and> errors (snd (run_repo sample_lib http_down (JStr (lit ''sk-test''))
          (lit ''songs about rain'') 3 initial_session ())) = []
   \<and> song_objects (snd (run_repo sample_lib http_down (JStr (lit ''sk-test''))
          (lit ''songs about rain'') 3 initial_session ())) = None"
proof -
  have 1: "lit ''songs about rain'' \<noteq> []" by simp
  have 2: "(3::int) \<noteq> 0" by simp
  have 3: "http_down (chat_request sample_lib (JStr (lit ''sk-test''))
             (messages (lit ''songs about rain'') 3)) ()
             = (Failed (Exn RequestException (lit ''Connection refused'')), ())"
    by (simp add: http_down_def)
  have 4: "cls (Exn RequestException (lit ''Connection refused'')) = RequestException" by simp
  show ?thesis
    using transport_failure_of_language_model
      [where http = http_down and lib = sample_lib and openai_api_key = "JStr (lit ''sk-test'')"
         and playlist_description = "lit ''songs about rain''" and limit = 3 and w = "()"
         and w' = "()" and exc = "Exn RequestException (lit ''Connection refused'')"
         and sess = initial_session, OF 1 2 3 4]
    by simp
qed

text \<open>
  When the tool of stage 1 raises, which \<open>safe_call\<close> reports as an error, the
  orchestrator does record it: one entry that names \<^verbatim>\<open>OpenAI (create_chat_completion)\<close>
  and carries the text of the exception, an empty song list, no further tool call, and
  the retained summary untouched. With the tool of the repository this takes an exception
  that is not a \<^verbatim>\<open>RequestException\<close>.
\<close>

lemma language_model_failure_ends_run:
  assumes "playlist_description \<noteq> []" and "limit \<noteq> 0"
      and "chat_completion_tool T [messages playlist_description limit] w = (Inl exc, w')"
  shows "fst (run lib T playlist_description limit sess w) = Finished
       \<and> errors (snd (run lib T playlist_description limit sess w)) =
           [[(lit ''tool'', lit ''OpenAI (create_chat_completion)''), (lit ''exception'', msg exc),
             (lit ''traceback'', format_exc lib exc)]]
       \<and> song_objects (snd (run lib T playlist_description limit sess w)) = Some []
       \<and> map fst (calls (snd (run lib T playlist_description limit sess w))) =
           [lit ''OpenAI (create_chat_completion)'']
       \<and> playlist_info (snd (run lib T playlist_description limit sess w)) = playlist_info sess"
  using assms
  by (simp add: run_def call_tool_def safe_call_def emit_def append_error_def)

lemma language_model_failure_ends_run_witness:
  "fst (run sample_lib (repo_tools sample_lib http_broken (JStr (lit ''sk-test''))) (lit ''songs about rain'') 3 initial_session ())
     = Finished
   \<and> errors (snd (run sample_lib (repo_tools sample_lib http_broken (JStr (lit ''sk-test'')))
         (lit ''songs about rain'') 3 initial_session ())) =
       [[(lit ''tool'', lit ''OpenAI (create_chat_completion)''),
         (lit ''exception'', lit ''response body is not JSON''),
         (lit ''traceback'', lit ''Traceback (most recent call last): ...'')]]
   \<and> song_objects (snd (run sample_lib (repo_tools sample_lib http_broken (JStr (lit ''sk-test'')))
         (lit ''songs about rain'') 3 initial_session ())) = Some []
   \<and> map fst (calls (snd (run sample_lib (repo_tools sample_lib http_broken (JStr (lit ''sk-test'')))
         (lit ''songs about rain'') 3 initial_session ()))) = [lit ''OpenAI (create_chat_completion)'']
   \<and> playlist_info (snd (run sample_lib (repo_tools sample_lib http_broken (JStr (lit ''sk-test'')))
         (lit ''songs about rain'') 3 initial_session ())) = JObj []"
proof -
  have 1: "(lit ''songs about rain'') \<noteq> []" by simp
  have 2: "(3::int) \<noteq> 0" by simp
  have 3: "chat_completion_tool (repo_tools sample_lib http_broken (JStr (lit ''sk-test'')))
             [messages (lit ''songs about rain'') 3] () =
           (Inl (Exn OtherException (lit ''response body is not JSON'')), ())"
    by (simp add: lit_def repo_tools_def create_chat_completion_def chat_request_def send_def http_broken_def)
  show ?thesis
    using language_model_failure_ends_run [OF 1 2 3, of sample_lib initial_session]
    by (simp add: lit_def sample_lib_def initial_session_def)
qed

subsection \<open>The requested count\<close>

text \<open>
  Claim C8, evaluated at a requested count of 1 with a completion that holds three songs.
  The run builds its song list from every entry of the completion: it searches for the
  three songs and records the three in the summary. With the tools of the repository the
  run holds the same three songs when stage 1 is over.
\<close>

theorem run_keeps_every_generated_song:
  "song_objects (snd (run sample_lib stub_tools (lit ''songs about rain'') 1 initial_session up)) =
     Some [\<lparr>title = JStr (lit ''A''), artist = JStr (lit ''X'')\<rparr>, \<lparr>title = JStr (lit ''B''), artist = JStr (lit ''Y'')\<rparr>,
           \<lparr>title = JStr (lit ''C''), artist = JStr (lit ''Z'')\<rparr>]
   \<and> map (\<lambda>c. (fst c, fst (snd c))) (calls (snd (run sample_lib stub_tools (lit ''songs about rain'') 1 initial_session up))) =
       [(lit ''OpenAI (create_chat_completion)'', [messages (lit ''songs about rain'') 1]),
        (lit ''Spotify (get_current_user_profile)'', []),
        (lit ''Spotify (create_playlist)'', [JStr (lit ''user1''), JStr (lit ''AI: Rainy Mood'')]),
        (lit ''Spotify (search_for_item)'', [JStr (lit ''track:A artist:X'')]),
        (lit ''Spotify (search_for_item)'', [JStr (lit ''track:B artist:Y'')]),
        (lit ''Spotify (search_for_item)'', [JStr (lit ''track:C artist:Z'')]),
        (lit ''Spotify (add_items_to_playlist)'',
           [JStr (lit ''playlist1''), JArr [JStr (lit ''spotify:track:a''), JStr (lit ''spotify:track:c'')]])]
   \<and> playlist_info (snd (run sample_lib stub_tools (lit ''songs about rain'') 1 initial_session up)) =
       JObj [(lit ''playlist_name'', JStr (lit ''AI: Rainy Mood'')),
             (lit ''playlist_description'', JStr (lit ''songs about rain'')),
             (lit ''songs'', JArr [JObj [(lit ''title'', JStr (lit ''A'')), (lit ''artist'', JStr (lit ''X''))],
                               JObj [(lit ''title'', JStr (lit ''B'')), (lit ''artist'', JStr (lit ''Y''))],
                               JObj [(lit ''title'', JStr (lit ''C'')), (lit ''artist'', JStr (lit ''Z''))]]),
             (lit ''resolved_track_count'', JInt 2),
             (lit ''playlist_id'', JStr (lit ''playlist1''))]
   \<and> song_objects (snd (run_repo sample_lib http_llm_only (JStr (lit ''sk-test''))
         (lit ''songs about rain'') 1 initial_session ())) =
       Some [\<lparr>title = JStr (lit ''A''), artist = JStr (lit ''X'')\<rparr>, \<lparr>title = JStr (lit ''B''), artist = JStr (lit ''Y'')\<rparr>,
             \<lparr>title = JStr (lit ''C''), artist = JStr (lit ''Z'')\<rparr>]"
  by (simp add: lit_def eval_defs run_repo_def repo_tools_def create_chat_completion_def chat_request_def
      get_current_user_profile_def send_def http_llm_only_def)

subsection \<open>The tools as the orchestrator calls them\<close>



subsection \<open>What a run retains of the run before\<close>























subsection \<open>The orchestrator over tools that answer\<close>

text \<open>
  Two evaluations of the orchestrator with stand-ins for the tools, which return where the
  tools of the repository, as they are called, raise. With a profile that has no
  \<^verbatim>\<open>id\<close>, lines 247 to 251 draw an error message and stop the run, and append
  nothing to the error list. And once a run has written a summary, a later run that does
  not reach Finalize leaves that summary in the retained state.
\<close>

lemma missing_user_id_is_not_recorded:
  "fst (run sample_lib stub_tools (lit ''songs about rain'') 3 initial_session
          (up\<lparr>profile := JObj [(lit ''display_name'', JStr (lit ''Ada''))]\<rparr>)) = Stopped
   \<and> errors (snd (run sample_lib stub_tools (lit ''songs about rain'') 3 initial_session
          (up\<lparr>profile := JObj [(lit ''display_name'', JStr (lit ''Ada''))]\<rparr>))) = []
   \<and> map fst (calls (snd (run sample_lib stub_tools (lit ''songs about rain'') 3 initial_session
          (up\<lparr>profile := JObj [(lit ''display_name'', JStr (lit ''Ada''))]\<rparr>)))) =
       [(lit ''OpenAI (create_chat_completion)''), (lit ''Spotify (get_current_user_profile)'')]
   \<and> screen (snd (run sample_lib stub_tools (lit ''songs about rain'') 3 initial_session
          (up\<lparr>profile := JObj [(lit ''display_name'', JStr (lit ''Ada''))]\<rparr>))) =
       [(st_info, lit ''Generating playlist...''),
        (st_error, lit ''Could not retrieve Spotify user ID. Check your token / auth flow.'')]"
  by (simp add: lit_def eval_defs)

lemma previous_summary_survives:
  "playlist_info (snd (run sample_lib stub_tools (lit ''songs about snow'') 3
       (retained (snd (run sample_lib stub_tools (lit ''songs about rain'') 3 initial_session up)))
       (up\<lparr>llm_up := False\<rparr>))) =
     JObj [(lit ''playlist_name'', JStr (lit ''AI: Rainy Mood'')),
           (lit ''playlist_description'', JStr (lit ''songs about rain'')),
           (lit ''songs'', JArr [JObj [(lit ''title'', JStr (lit ''A'')), (lit ''artist'', JStr (lit ''X''))],
                             JObj [(lit ''title'', JStr (lit ''B'')), (lit ''artist'', JStr (lit ''Y''))],
                             JObj [(lit ''title'', JStr (lit ''C'')), (lit ''artist'', JStr (lit ''Z''))]]),
           (lit ''resolved_track_count'', JInt 2),
           (lit ''playlist_id'', JStr (lit ''playlist1''))]"
  by (simp add: lit_def eval_defs)

end
